theory Spec2Isabelle
  imports Main "HOL-Library.Word"
begin

unbundle bit_operations_syntax

section \<open>Basic types\<close>

type_synonym byte = "8 word"
type_synonym uint64 = "64 word"

text \<open>Go's \<open>uint\<close> on the 64-bit targets the node is built for.\<close>
type_synonym uint = "64 word"

text \<open>\<open>time.Duration\<close> and \<open>time.Time\<close>, both counted in nanoseconds. The \<open>int64\<close>
  range of a duration is written out where the code computes one: \<open>Time.Sub\<close> saturates
  and a subtraction of durations wraps around.\<close>
type_synonym Duration = int
type_synonym Time = int

section \<open>Configuration (package config)\<close>

definition RollDPoSScheme :: string where
  "RollDPoSScheme = ''ROLLDPOS''"

definition StandaloneScheme :: string where
  "StandaloneScheme = ''STANDALONE''"

definition NOOPScheme :: string where
  "NOOPScheme = ''NOOP''"

record RollDPoS =
  DelegateInterval :: Duration
  ProposerInterval :: Duration
  UnmatchedEventTTL :: Duration
  UnmatchedEventInterval :: Duration
  RoundStartTTL :: Duration
  AcceptProposeTTL :: Duration
  AcceptProposalEndorseTTL :: Duration
  AcceptCommitEndorseTTL :: Duration
  Delay :: Duration
  NumSubEpochs :: uint
  EventChanSize :: uint
  NumDelegates :: uint
  EnableDummyBlock :: bool
  TimeBasedRotation :: bool

record Consensus =
  Scheme :: string
  RollDPoS :: RollDPoS
  BlockCreationInterval :: Duration

text \<open>Of the root \<open>Config\<close> struct only the sub-struct read by the consensus
  validators is kept.\<close>
record Config =
  NodeType :: string
  Consensus :: Consensus

datatype cfg_error = ErrInvalidCfg string

text \<open>\<open>ValidateRollDPoS\<close>: \<open>None\<close> is Go's \<open>nil\<close> error. The comparisons
  \<open>\<le> 0\<close> are on unsigned integers.\<close>
definition ValidateRollDPoS :: "Config \<Rightarrow> cfg_error option" where
  "ValidateRollDPoS cfg =
    (if Scheme (Consensus cfg) = RollDPoSScheme \<and> EventChanSize (RollDPoS (Consensus cfg)) \<le> 0
     then Some (ErrInvalidCfg ''roll-DPoS event chan size should be greater than 0'')
     else if Scheme (Consensus cfg) = RollDPoSScheme \<and> NumDelegates (RollDPoS (Consensus cfg)) \<le> 0
     then Some (ErrInvalidCfg ''roll-DPoS event delegate number should be greater than 0'')
     else if Scheme (Consensus cfg) = RollDPoSScheme \<and>
             EnableDummyBlock (RollDPoS (Consensus cfg)) \<and>
             TimeBasedRotation (RollDPoS (Consensus cfg))
     then Some (ErrInvalidCfg
       ''roll-DPoS should enable dummy block when doing time based rotation'')
     else None)"

text \<open>The \<open>Consensus\<close> part of \<open>config.Default\<close>, with the scheme set by the caller.\<close>
definition DefaultRollDPoS :: RollDPoS where
  "DefaultRollDPoS =
    \<lparr> DelegateInterval = 10 * 1000000000,
      ProposerInterval = 10 * 1000000000,
      UnmatchedEventTTL = 3 * 1000000000,
      UnmatchedEventInterval = 100 * 1000000,
      RoundStartTTL = 10 * 1000000000,
      AcceptProposeTTL = 1000000000,
      AcceptProposalEndorseTTL = 1000000000,
      AcceptCommitEndorseTTL = 1000000000,
      Delay = 5 * 1000000000,
      NumSubEpochs = 1,
      EventChanSize = 10000,
      NumDelegates = 21,
      EnableDummyBlock = True,
      TimeBasedRotation = False \<rparr>"

definition rollDPoSConfig :: "bool \<Rightarrow> bool \<Rightarrow> Config" where
  "rollDPoSConfig dummy rotation =
    \<lparr> NodeType = ''delegate'',
      Consensus = \<lparr> Scheme = RollDPoSScheme,
                    RollDPoS = DefaultRollDPoS \<lparr> EnableDummyBlock := dummy,
                                                TimeBasedRotation := rotation \<rparr>,
                    BlockCreationInterval = 10 * 1000000000 \<rparr> \<rparr>"

section \<open>Endorsements\<close>

text \<open>\<open>hash.Hash32B\<close> is the array type \<open>[32]byte\<close>.\<close>
typedef Hash32B = "{bs :: byte list. length bs = 32}"
  by (rule exI [of _ "replicate 32 0"]) simp

text \<open>\<open>keypair.PublicKey\<close> is a fixed-size byte array whose length is declared in
  package keypair; it is kept as its byte content.\<close>
type_synonym PublicKey = "byte list"

definition endorseProposal :: bool where
  "endorseProposal = False"

definition endorseCommit :: bool where
  "endorseCommit = True"

record endorse =
  en_topic :: bool
  en_height :: uint64
  en_blkHash :: Hash32B
  en_decision :: bool
  en_endorser :: string
  en_endorserPubkey :: PublicKey
  en_signature :: "byte list"

text \<open>Modelled from the spec: the declaration of \<open>enc.MachineEndian\<close> (package pkg/enc)
  is missing; the spec gives the byte order of the stream as little-endian. This is
  \<open>binary.LittleEndian.PutUint64\<close> on the fresh 8-byte buffer \<open>make([]byte, 8)\<close>:
  byte \<open>i\<close> is \<open>byte(v >> (8 * i))\<close>.\<close>
definition MachineEndian_PutUint64 :: "uint64 \<Rightarrow> byte list" where
  "MachineEndian_PutUint64 v =
    [ucast v, ucast (drop_bit 8 v), ucast (drop_bit 16 v), ucast (drop_bit 24 v),
     ucast (drop_bit 32 v), ucast (drop_bit 40 v), ucast (drop_bit 48 v),
     ucast (drop_bit 56 v)]"

definition ByteStream :: "endorse \<Rightarrow> byte list" where
  "ByteStream en =
    (let stream = MachineEndian_PutUint64 (en_height en);
         stream = (if en_topic en then stream @ [1] else stream @ [0]);
         stream = stream @ Rep_Hash32B (en_blkHash en);
         stream = (if en_decision en then stream @ [1] else stream @ [0])
     in stream)"

type_synonym PrivateKey = "byte list"

text \<open>\<open>iotxaddress.Address\<close>.\<close>
record Address =
  RawAddress :: string
  PublicKey :: PublicKey
  PrivateKey :: PrivateKey

datatype error =
    ErrTransitionNotFound
  | ErrInvalidTransition
  | ErrEvtCast
  | ErrInvalidEventType
  | ErrPrivateKeyEmpty
  | ErrNotEnoughDKG
  | ErrExternal string

text \<open>The cryptographic primitives and key helpers (packages crypto, keypair,
  iotxaddress and the blake2b library) are parameters of the model. An error result is
  \<open>Inl\<close>; for the functions that return only an error, \<open>None\<close> is \<open>nil\<close>.\<close>
record crypto =
  blake2b_Sum256 :: "byte list \<Rightarrow> Hash32B"
  EC283_Sign :: "PrivateKey \<Rightarrow> byte list \<Rightarrow> byte list"
  EC283_Verify :: "PublicKey \<Rightarrow> byte list \<Rightarrow> byte list \<Rightarrow> bool"
  HashPubKey :: "PublicKey \<Rightarrow> byte list"
  GetPubkeyHash :: "string \<Rightarrow> error + byte list"
  BytesToPublicKey :: "byte list \<Rightarrow> error + PublicKey"
  ZeroPublicKey :: PublicKey
  ZeroPrivateKey :: PrivateKey
  Degree :: int
  BLS_Verify :: "byte list \<Rightarrow> byte list \<Rightarrow> byte list \<Rightarrow> error option"
  BLS_SignAggregate :: "byte list list \<Rightarrow> byte list list \<Rightarrow> error + byte list"
  BLS_VerifyAggregate ::
    "byte list list \<Rightarrow> byte list list \<Rightarrow> byte list \<Rightarrow> byte list \<Rightarrow> error option"

definition Hash :: "crypto \<Rightarrow> endorse \<Rightarrow> Hash32B" where
  "Hash cr en = blake2b_Sum256 cr (ByteStream en)"

text \<open>\<open>Sign\<close> fills in the endorser, its public key and the signature, unless the
  endorser's private key is the zero key.\<close>
definition Sign :: "crypto \<Rightarrow> endorse \<Rightarrow> Address \<Rightarrow> error + endorse" where
  "Sign cr en endorser =
    (if PrivateKey endorser = ZeroPrivateKey cr then Inl ErrPrivateKeyEmpty
     else
       let hash = Hash cr en
       in Inr (en \<lparr> en_endorser := RawAddress endorser,
                    en_endorserPubkey := PublicKey endorser,
                    en_signature := EC283_Sign cr (PrivateKey endorser) (Rep_Hash32B hash) \<rparr>))"

definition VerifySignature :: "crypto \<Rightarrow> endorse \<Rightarrow> PublicKey \<Rightarrow> bool" where
  "VerifySignature cr en pubkey =
    (let pubkeyHash = HashPubKey cr pubkey
     in case GetPubkeyHash cr (en_endorser en) of
          Inl err \<Rightarrow> False
        | Inr endorserPubkeyHash \<Rightarrow>
            if pubkeyHash \<noteq> endorserPubkeyHash then False
            else EC283_Verify cr pubkey (Rep_Hash32B (Hash cr en)) (en_signature en))"

subsection \<open>Wire form\<close>

text \<open>A proto3 enum field is an \<open>int32\<close> and may carry a value outside its names.\<close>
datatype EndorsePb_EndorsementTopic =
    EndorsePb_PROPOSAL
  | EndorsePb_COMMIT
  | EndorsePb_unrecognized "32 word"

record EndorsePb =
  pb_Height :: uint64
  pb_BlockHash :: "byte list"
  pb_Topic :: EndorsePb_EndorsementTopic
  pb_Endorser :: string
  pb_EndorserPubKey :: "byte list"
  pb_Decision :: bool
  pb_Signature :: "byte list"

definition endorse_toProtoMsg :: "endorse \<Rightarrow> EndorsePb" where
  "endorse_toProtoMsg en =
    (let topic = (if en_topic en = endorseProposal then EndorsePb_PROPOSAL
                  else EndorsePb_COMMIT)
     in \<lparr> pb_Height = en_height en,
          pb_BlockHash = Rep_Hash32B (en_blkHash en),
          pb_Topic = topic,
          pb_Endorser = en_endorser en,
          pb_EndorserPubKey = en_endorserPubkey en,
          pb_Decision = en_decision en,
          pb_Signature = en_signature en \<rparr>)"

text \<open>Go's builtin \<open>copy(dst, src)\<close>: it overwrites the first
  \<open>min(len(dst), len(src))\<close> elements of \<open>dst\<close> and never grows it.\<close>
definition go_copy :: "'a list \<Rightarrow> 'a list \<Rightarrow> 'a list" where
  "go_copy dst src =
    (let n = min (length dst) (length src) in take n src @ drop n dst)"

text \<open>\<open>fromProtoMsg\<close> assigns to its receiver \<open>en\<close>; the result is the returned error
  and the receiver afterwards. The block hash and the topic are written before the
  public key is parsed, the other fields after. The log line of the error path is left
  out.\<close>
definition endorse_fromProtoMsg ::
  "crypto \<Rightarrow> endorse \<Rightarrow> EndorsePb \<Rightarrow> error option \<times> endorse" where
  "endorse_fromProtoMsg cr en endorsePb =
    (let en = en \<lparr> en_blkHash :=
                   Abs_Hash32B (go_copy (Rep_Hash32B (en_blkHash en)) (pb_BlockHash endorsePb)) \<rparr>;
         en = (case pb_Topic endorsePb of
                 EndorsePb_PROPOSAL \<Rightarrow> en \<lparr> en_topic := endorseProposal \<rparr>
               | EndorsePb_COMMIT \<Rightarrow> en \<lparr> en_topic := endorseCommit \<rparr>
               | EndorsePb_unrecognized v \<Rightarrow> en)
     in case BytesToPublicKey cr (pb_EndorserPubKey endorsePb) of
          Inl err \<Rightarrow> (Some err, en)
        | Inr pubKey \<Rightarrow>
            (None,
             en \<lparr> en_endorserPubkey := pubKey,
                  en_height := pb_Height endorsePb,
                  en_endorser := pb_Endorser endorsePb,
                  en_decision := pb_Decision endorsePb,
                  en_signature := go_copy (en_signature en) (pb_Signature endorsePb) \<rparr>))"

text \<open>The zero value of the struct, as declared by \<open>var en endorse\<close>.\<close>
definition zero_endorse :: "crypto \<Rightarrow> endorse" where
  "zero_endorse cr =
    \<lparr> en_topic = False, en_height = 0, en_blkHash = Abs_Hash32B (replicate 32 0),
      en_decision = False, en_endorser = [], en_endorserPubkey = ZeroPublicKey cr,
      en_signature = [] \<rparr>"

text \<open>The decoding half of \<open>newEndorseEvtWithEndorsePb\<close>: a fresh record filled from the
  message.\<close>
definition endorse_of_EndorsePb :: "crypto \<Rightarrow> EndorsePb \<Rightarrow> error + endorse" where
  "endorse_of_EndorsePb cr ePb =
    (case endorse_fromProtoMsg cr (zero_endorse cr) ePb of
       (Some err, en) \<Rightarrow> Inl err
     | (None, en) \<Rightarrow> Inr en)"

section \<open>Events and contexts of the consensus state machine\<close>

datatype State =
    sEpochStart
  | sDKGGeneration
  | sRoundStart
  | sInitPropose
  | sAcceptPropose
  | sAcceptProposalEndorse
  | sAcceptCommitEndorse
  | sInvalid

datatype EventType =
    eRollDelegates
  | eGenerateDKG
  | eStartRound
  | eInitBlock
  | eProposeBlock
  | eProposeBlockTimeout
  | eEndorseProposal
  | eEndorseProposalTimeout
  | eEndorseCommit
  | eEndorseCommitTimeout
  | eFinishEpoch
  | eBackdoor

definition consensusStates :: "State list" where
  "consensusStates =
    [sEpochStart, sDKGGeneration, sRoundStart, sInitPropose, sAcceptPropose,
     sAcceptProposalEndorse, sAcceptCommitEndorse]"

text \<open>\<open>blockchain.Block\<close> is declared in package blockchain. The record keeps the
  header data the state machine reads; what the block's methods compute
  (\<open>VerifySignature\<close>, \<open>HashBlock\<close>, \<open>IsDummyBlock\<close>, \<open>ConvertToBlockPb\<close>) is a
  parameter of the model.\<close>
record Block =
  blk_height :: uint64
  blk_producer :: string
  blk_timestamp :: Time
  DKGID :: "byte list"
  DKGPubkey :: "byte list"
  DKGBlockSig :: "byte list"
  blk_blockSig :: "byte list"
  blk_actions :: "byte list list"

type_synonym BlockPb = "byte list"

record ProposePb =
  pb_Proposer :: string
  pb_Block :: "BlockPb option"

text \<open>The Go event structs. Each embeds a \<open>consensusEvt\<close> (event type and creation
  time). A \<open>proposeBlkEvt\<close> holds a block pointer, which is \<open>nil\<close> when the event was
  decoded from a message without a block.\<close>
record consensusEvt =
  evt_t :: EventType
  evt_ts :: Time

record proposeBlkEvt = consensusEvt +
  evt_block :: "Block option"

record endorseEvt = consensusEvt +
  evt_endorse :: endorse

record backdoorEvt = consensusEvt +
  evt_dst :: State

text \<open>The interface \<open>iConsensusEvt\<close> with the dynamic type of its value; a
  \<open>timeoutEvt\<close> is a \<open>consensusEvt\<close> and nothing more.\<close>
datatype Event =
    ConsensusEvt consensusEvt
  | ProposeBlkEvt proposeBlkEvt
  | EndorseEvt endorseEvt
  | TimeoutEvt consensusEvt
  | BackdoorEvt backdoorEvt

fun Type :: "Event \<Rightarrow> EventType" where
  "Type (ConsensusEvt c) = evt_t c"
| "Type (ProposeBlkEvt p) = evt_t p"
| "Type (EndorseEvt n) = evt_t n"
| "Type (TimeoutEvt c) = evt_t c"
| "Type (BackdoorEvt b) = evt_t b"

fun timestamp :: "Event \<Rightarrow> Time" where
  "timestamp (ConsensusEvt c) = evt_ts c"
| "timestamp (ProposeBlkEvt p) = evt_ts p"
| "timestamp (EndorseEvt n) = evt_ts n"
| "timestamp (TimeoutEvt c) = evt_ts c"
| "timestamp (BackdoorEvt b) = evt_ts b"

text \<open>The type assertion \<open>evt.(*timeoutEvt)\<close>.\<close>
fun is_timeoutEvt :: "Event \<Rightarrow> bool" where
  "is_timeoutEvt (TimeoutEvt c) = True"
| "is_timeoutEvt evt = False"

record roundCtx =
  round_height :: uint64
  round_timestamp :: Time
  round_block :: "Block option"
  proposalEndorses :: "Hash32B \<rightharpoonup> (string \<rightharpoonup> bool)"
  commitEndorses :: "Hash32B \<rightharpoonup> (string \<rightharpoonup> bool)"
  round_proposer :: string

record epochCtx =
  epoch_num :: uint64
  epoch_height :: uint64
  epoch_delegates :: "string list"
  numSubEpochs :: uint
  epoch_dkg :: "byte list"
  epoch_seed :: "byte list"

text \<open>The data of \<open>rollDPoSCtx\<close>; its collaborators (chain, action pool, network, clock)
  are in the environment below.\<close>
record rollDPoSCtx =
  ctx_cfg :: RollDPoS
  ctx_addr :: Address
  ctx_epoch :: epochCtx
  ctx_round :: roundCtx

datatype message =
    MsgPropose ProposePb
  | MsgEndorse EndorsePb
  | MsgBlock BlockPb

datatype level = Debug | Info | Warn | Error

text \<open>What a handler does to the outside, in order: a log line, a broadcast on the
  network, a block handed to \<open>CommitBlock\<close>, a reset of the action pool.\<close>
datatype effect =
    Log level string
  | Sent "32 word" message
  | Committed Block
  | ActPoolReset

text \<open>The state machine: the current state of the wrapped \<open>fsm.FSM\<close>, the event
  channel, the delayed producers that are still asleep (each with its delay), the
  context, and the trace of effects.\<close>
record cFSM =
  fsm_current :: State
  evtq :: "Event list"
  timers :: "(Duration \<times> Event) list"
  ctx :: rollDPoSCtx
  out :: "effect list"

text \<open>The environment of one step, as parameters of the model: the reading of the
  clock (which does not advance during a step), the methods of \<open>rollDPoSCtx\<close> whose
  bodies are in another file of the package, the chain and network collaborators, the
  methods of a block, and the cryptography. Within one step no handler reads the chain
  after writing to it, so each collaborator is a function of its arguments.\<close>
record env =
  now :: Time
  cr :: crypto
  calcEpochNumAndHeight :: "rollDPoSCtx \<Rightarrow> error + (uint64 \<times> uint64)"
  rollingDelegates :: "rollDPoSCtx \<Rightarrow> uint64 \<Rightarrow> error + string list"
  generateDKG :: "rollDPoSCtx \<Rightarrow> error + byte list"
  rotatedProposer :: "rollDPoSCtx \<Rightarrow> error + (string \<times> uint64)"
  mintBlock :: "rollDPoSCtx \<Rightarrow> error + Block"
  calcProposer :: "rollDPoSCtx \<Rightarrow> uint64 \<Rightarrow> string list \<Rightarrow> error + string"
  calcQuorum :: "rollDPoSCtx \<Rightarrow> (string \<rightharpoonup> bool) \<Rightarrow> bool \<times> bool"
  isEpochFinished :: "rollDPoSCtx \<Rightarrow> error + bool"
  calcDurationSinceLastBlock :: "rollDPoSCtx \<Rightarrow> error + Duration"
  ChainID :: "32 word"
  ValidateBlock :: "Block \<Rightarrow> bool \<Rightarrow> error option"
  CommitBlock :: "Block \<Rightarrow> error option"
  MintNewDummyBlock :: Block
  GetBlockByHeight :: "uint64 \<Rightarrow> error + Block"
  Broadcast :: "32 word \<Rightarrow> message \<Rightarrow> error option"
  HashBlock :: "Block \<Rightarrow> Hash32B"
  blk_VerifySignature :: "Block \<Rightarrow> bool"
  IsDummyBlock :: "Block \<Rightarrow> bool"
  ConvertToBlockPb :: "Block \<Rightarrow> BlockPb option"
  ConvertFromBlockPb :: "BlockPb \<Rightarrow> Block"

subsection \<open>Time\<close>

definition minDuration :: Duration where
  "minDuration = - (2 ^ 63)"

definition maxDuration :: Duration where
  "maxDuration = 2 ^ 63 - 1"

text \<open>\<open>Time.Sub\<close> saturates at the ends of the \<open>int64\<close> range of a duration.\<close>
definition Sub :: "Time \<Rightarrow> Time \<Rightarrow> Duration" where
  "Sub t u =
    (let d = t - u
     in if d < minDuration then minDuration
        else if maxDuration < d then maxDuration
        else d)"

text \<open>The value of an integer expression in \<open>int64\<close> arithmetic, which wraps around.\<close>
definition int64 :: "int \<Rightarrow> int" where
  "int64 x = (x + 2 ^ 63) mod 2 ^ 64 - 2 ^ 63"

definition Before :: "Time \<Rightarrow> Time \<Rightarrow> bool" where
  "Before t u = (t < u)"

subsection \<open>Event constructors\<close>

definition newCEvt :: "env \<Rightarrow> EventType \<Rightarrow> consensusEvt" where
  "newCEvt e t = \<lparr> evt_t = t, evt_ts = now e \<rparr>"

definition newProposeBlkEvt :: "env \<Rightarrow> Block option \<Rightarrow> proposeBlkEvt" where
  "newProposeBlkEvt e block =
    \<lparr> evt_t = eProposeBlock, evt_ts = now e, evt_block = block \<rparr>"

text \<open>The height argument of the method \<open>cFSM.newTimeoutEvt\<close> is not used.\<close>
definition newTimeoutEvt :: "env \<Rightarrow> EventType \<Rightarrow> uint64 \<Rightarrow> consensusEvt" where
  "newTimeoutEvt e t height = newCEvt e t"

definition newBackdoorEvt :: "env \<Rightarrow> State \<Rightarrow> backdoorEvt" where
  "newBackdoorEvt e dst = \<lparr> evt_t = eBackdoor, evt_ts = now e, evt_dst = dst \<rparr>"

definition newEndorseEvtWithEndorse :: "env \<Rightarrow> endorse \<Rightarrow> endorseEvt" where
  "newEndorseEvtWithEndorse e en =
    (let eventType = (if en_topic en = endorseProposal then eEndorseProposal
                      else eEndorseCommit)
     in \<lparr> evt_t = eventType, evt_ts = now e, evt_endorse = en \<rparr>)"

definition endorseEvt_toProtoMsg :: "endorseEvt \<Rightarrow> EndorsePb" where
  "endorseEvt_toProtoMsg ev = endorse_toProtoMsg (evt_endorse ev)"

text \<open>\<open>proposeBlkEvt.toProtoMsg\<close>, on an event whose block is not \<open>nil\<close>.\<close>
definition proposeBlkEvt_toProtoMsg :: "env \<Rightarrow> Block \<Rightarrow> ProposePb" where
  "proposeBlkEvt_toProtoMsg e block =
    \<lparr> pb_Proposer = blk_producer block, pb_Block = ConvertToBlockPb e block \<rparr>"

text \<open>\<open>proposeBlkEvt.fromProtoMsg\<close> assigns the block only when the message has one.\<close>
definition proposeBlkEvt_fromProtoMsg ::
  "env \<Rightarrow> proposeBlkEvt \<Rightarrow> ProposePb \<Rightarrow> proposeBlkEvt" where
  "proposeBlkEvt_fromProtoMsg e ev pMsg =
    (case pb_Block pMsg of
       Some b \<Rightarrow> ev \<lparr> evt_block := Some (ConvertFromBlockPb e b) \<rparr>
     | None \<Rightarrow> ev)"

definition newProposeBlkEvtFromProposePb :: "env \<Rightarrow> ProposePb \<Rightarrow> proposeBlkEvt" where
  "newProposeBlkEvtFromProposePb e pb =
    proposeBlkEvt_fromProtoMsg e (newProposeBlkEvt e None) pb"

definition newEndorseEvtWithEndorsePb :: "env \<Rightarrow> EndorsePb \<Rightarrow> error + endorseEvt" where
  "newEndorseEvtWithEndorsePb e ePb =
    (case endorse_of_EndorsePb (cr e) ePb of
       Inl err \<Rightarrow> Inl err
     | Inr en \<Rightarrow> Inr (newEndorseEvtWithEndorse e en))"

subsection \<open>Logging, producing, broadcasting\<close>

definition logf :: "level \<Rightarrow> string \<Rightarrow> cFSM \<Rightarrow> cFSM" where
  "logf lvl msg m = m \<lparr> out := out m @ [Log lvl msg] \<rparr>"

text \<open>The event channel is made by \<open>newConsensusFSM\<close> with the capacity
  \<open>EventChanSize\<close> of the configuration, which no handler changes.\<close>
definition evtq_cap :: "cFSM \<Rightarrow> nat" where
  "evtq_cap m = unat (EventChanSize (ctx_cfg (ctx m)))"

text \<open>The channel has \<open>k\<close> free slots.\<close>
definition evtq_room :: "nat \<Rightarrow> cFSM \<Rightarrow> bool" where
  "evtq_room k m \<longleftrightarrow> length (evtq m) + k \<le> evtq_cap m"

text \<open>The machine made by \<open>newConsensusFSM\<close>, in the initial state of the builder.\<close>
definition newConsensusFSM :: "rollDPoSCtx \<Rightarrow> cFSM" where
  "newConsensusFSM c =
    \<lparr> fsm_current = sEpochStart, evtq = [], timers = [], ctx = c, out = [] \<rparr>"

text \<open>\<open>produce\<close>, called by the worker: with a positive delay a producer is started that
  sleeps and then sends the event; otherwise the worker sends the event on the channel
  itself. The worker is the only receiver of the channel, so its own send on a full
  channel never returns: that is \<open>None\<close>. The closing of the machine, which cancels a
  sleeping producer, is not modelled.\<close>
definition produce :: "Event \<Rightarrow> Duration \<Rightarrow> cFSM \<Rightarrow> cFSM option" where
  "produce evt delay m =
    (if 0 < delay then Some (m \<lparr> timers := timers m @ [(delay, evt)] \<rparr>)
     else if length (evtq m) < evtq_cap m then Some (m \<lparr> evtq := evtq m @ [evt] \<rparr>)
     else None)"

text \<open>A piece of code returns a value, panics, or is blocked for ever in a send on the
  full channel; the machine that comes with \<open>Blocked\<close> is the one at the send.\<close>
datatype 'a result = Panic | Blocked | Return 'a

text \<open>\<open>m.produce(evt, delay)\<close> followed by the rest \<open>k\<close> of a function body.\<close>
definition produce_then ::
  "Event \<Rightarrow> Duration \<Rightarrow> cFSM \<Rightarrow> (cFSM \<Rightarrow> 'a result \<times> cFSM) \<Rightarrow> 'a result \<times> cFSM" where
  "produce_then evt delay m k =
    (case produce evt delay m of None \<Rightarrow> (Blocked, m) | Some m' \<Rightarrow> k m')"

text \<open>A broadcast whose error is only logged.\<close>
definition broadcast :: "env \<Rightarrow> message \<Rightarrow> string \<Rightarrow> cFSM \<Rightarrow> cFSM" where
  "broadcast e msg errMsg m =
    (let m = m \<lparr> out := out m @ [Sent (ChainID e) msg] \<rparr>
     in case Broadcast e (ChainID e) msg of
          Some err \<Rightarrow> logf Error errMsg m
        | None \<Rightarrow> m)"

text \<open>\<open>newEndorseEvt\<close>, with the log line of its error path.\<close>
definition newEndorseEvt ::
  "env \<Rightarrow> bool \<Rightarrow> Hash32B \<Rightarrow> bool \<Rightarrow> uint64 \<Rightarrow> Address \<Rightarrow> cFSM \<Rightarrow>
   (error + endorseEvt) \<times> cFSM" where
  "newEndorseEvt e topic blkHash decision height endorser m =
    (let en = \<lparr> en_topic = topic, en_height = height, en_blkHash = blkHash,
                en_decision = decision, en_endorser = [],
                en_endorserPubkey = ZeroPublicKey (cr e), en_signature = [] \<rparr>
     in case Sign (cr e) en endorser of
          Inl err \<Rightarrow> (Inl err, logf Error ''failed to sign endorse for block'' m)
        | Inr en \<Rightarrow> (Inr (newEndorseEvtWithEndorse e en), m))"

definition newEndorseProposalEvt ::
  "env \<Rightarrow> Hash32B \<Rightarrow> bool \<Rightarrow> cFSM \<Rightarrow> (error + endorseEvt) \<times> cFSM" where
  "newEndorseProposalEvt e blkHash decision m =
    newEndorseEvt e endorseProposal blkHash decision
      (round_height (ctx_round (ctx m))) (ctx_addr (ctx m)) m"

definition newEndorseCommitEvt ::
  "env \<Rightarrow> Hash32B \<Rightarrow> bool \<Rightarrow> cFSM \<Rightarrow> (error + endorseEvt) \<times> cFSM" where
  "newEndorseCommitEvt e blkHash decision m =
    newEndorseEvt e endorseCommit blkHash decision
      (round_height (ctx_round (ctx m))) (ctx_addr (ctx m)) m"

section \<open>Handlers of the state machine\<close>

text \<open>A handler returns the destination state and an error (\<open>None\<close> is \<open>nil\<close>), panics,
  or is blocked. The errors are kept by their cause; the text added by \<open>errors.Wrap\<close> is
  dropped.\<close>
type_synonym handler = "env \<Rightarrow> Event \<Rightarrow> cFSM \<Rightarrow> (State \<times> error option) result \<times> cFSM"

definition set_round :: "(roundCtx \<Rightarrow> roundCtx) \<Rightarrow> cFSM \<Rightarrow> cFSM" where
  "set_round f m = m \<lparr> ctx := (ctx m) \<lparr> ctx_round := f (ctx_round (ctx m)) \<rparr> \<rparr>"

definition set_epoch :: "(epochCtx \<Rightarrow> epochCtx) \<Rightarrow> cFSM \<Rightarrow> cFSM" where
  "set_epoch f m = m \<lparr> ctx := (ctx m) \<lparr> ctx_epoch := f (ctx_epoch (ctx m)) \<rparr> \<rparr>"

fun isDelegate :: "cFSM \<Rightarrow> string list \<Rightarrow> bool" where
  "isDelegate m [] = False"
| "isDelegate m (d # ds) =
    (if RawAddress (ctx_addr (ctx m)) = d then True else isDelegate m ds)"

definition handleRollDelegatesEvt :: handler where
  "handleRollDelegatesEvt e evt m =
    (case calcEpochNumAndHeight e (ctx m) of
       Inl err \<Rightarrow>
         produce_then (ConsensusEvt (newCEvt e eRollDelegates))
           (DelegateInterval (ctx_cfg (ctx m))) m
           (\<lambda>m. (Return (sInvalid, Some err), m))
     | Inr (epochNum, epochHeight) \<Rightarrow>
         (case rollingDelegates e (ctx m) epochNum of
            Inl err \<Rightarrow>
              produce_then (ConsensusEvt (newCEvt e eRollDelegates))
                (DelegateInterval (ctx_cfg (ctx m))) m
                (\<lambda>m. (Return (sInvalid, Some err), m))
          | Inr delegates \<Rightarrow>
              if isDelegate m delegates then
                let numSubEpochs = (if 0 < NumSubEpochs (ctx_cfg (ctx m))
                                    then NumSubEpochs (ctx_cfg (ctx m)) else 1);
                    m = set_epoch (\<lambda>_. \<lparr> epoch_num = epochNum, epoch_height = epochHeight,
                                          epoch_delegates = delegates,
                                          numSubEpochs = numSubEpochs,
                                          epoch_dkg = [], epoch_seed = [] \<rparr>) m
                in produce_then (ConsensusEvt (newCEvt e eGenerateDKG)) 0 m
                     (\<lambda>m. (Return (sDKGGeneration, None),
                            logf Info ''current node is the delegate'' m))
              else
                produce_then (ConsensusEvt (newCEvt e eRollDelegates))
                  (DelegateInterval (ctx_cfg (ctx m))) m
                  (\<lambda>m. (Return (sEpochStart, None),
                         logf Info ''current node is not the delegate'' m))))"

text \<open>\<open>produceStartRoundEvt\<close>. The delay \<open>ProposerInterval - duration\<close> is a subtraction
  of \<open>int64\<close> values and wraps around.\<close>
definition produceStartRoundEvt :: "env \<Rightarrow> cFSM \<Rightarrow> error option result \<times> cFSM" where
  "produceStartRoundEvt e m =
    (let r = (case round_block (ctx_round (ctx m)) of
                Some b \<Rightarrow> Inr (Sub (now e) (blk_timestamp b))
              | None \<Rightarrow> calcDurationSinceLastBlock e (ctx m))
     in case r of
          Inl err \<Rightarrow> (Return (Some err), m)
        | Inr duration \<Rightarrow>
            if ProposerInterval (ctx_cfg (ctx m)) \<le> duration
            then produce_then (ConsensusEvt (newCEvt e eStartRound)) 0 m
                   (\<lambda>m. (Return None, m))
            else produce_then (ConsensusEvt (newCEvt e eStartRound))
                   (int64 (ProposerInterval (ctx_cfg (ctx m)) - duration)) m
                   (\<lambda>m. (Return None, m)))"

definition handleGenerateDKGEvt :: handler where
  "handleGenerateDKGEvt e evt m =
    (case generateDKG e (ctx m) of
       Inl err \<Rightarrow> (Return (sInvalid, Some err), m)
     | Inr dkg \<Rightarrow>
         let m = set_epoch (\<lambda>ep. ep \<lparr> epoch_dkg := dkg \<rparr>) m
         in (case produceStartRoundEvt e m of
               (Panic, m) \<Rightarrow> (Panic, m)
             | (Blocked, m) \<Rightarrow> (Blocked, m)
             | (Return (Some err), m) \<Rightarrow> (Return (sInvalid, Some err), m)
             | (Return None, m) \<Rightarrow> (Return (sRoundStart, None), m)))"

definition handleStartRoundEvt :: handler where
  "handleStartRoundEvt e evt m =
    (case rotatedProposer e (ctx m) of
       Inl err \<Rightarrow>
         (Return (sInvalid, Some err), logf Error ''error when getting the proposer'' m)
     | Inr (proposer, height) \<Rightarrow>
         let m = set_round (\<lambda>_. \<lparr> round_height = height, round_timestamp = now e,
                                  round_block = None, proposalEndorses = Map.empty,
                                  commitEndorses = Map.empty,
                                  round_proposer = proposer \<rparr>) m
         in if proposer = RawAddress (ctx_addr (ctx m)) then
              let m = logf Info ''current node is the proposer'' m
              in produce_then (ConsensusEvt (newCEvt e eInitBlock)) 0 m
                   (\<lambda>m. (Return (sInitPropose, None), m))
            else
              let m = logf Info ''current node is not the proposer'' m
              in produce_then
                   (TimeoutEvt (newTimeoutEvt e eProposeBlockTimeout
                                  (round_height (ctx_round (ctx m)))))
                   (AcceptProposeTTL (ctx_cfg (ctx m))) m
                   (\<lambda>m. (Return (sAcceptPropose, None), m)))"

definition handleInitBlockEvt :: handler where
  "handleInitBlockEvt e evt m =
    (case mintBlock e (ctx m) of
       Inl err \<Rightarrow> (Return (sInvalid, Some err), m)
     | Inr blk \<Rightarrow>
         let proposeBlkEvt = newProposeBlkEvt e (Some blk);
             proposeBlkEvtProto = proposeBlkEvt_toProtoMsg e blk
         in produce_then (ProposeBlkEvt proposeBlkEvt) 0 m
              (\<lambda>m. (Return (sAcceptPropose, None),
                     broadcast e (MsgPropose proposeBlkEvtProto)
                       ''error when broadcasting proposeBlkEvt'' m)))"

definition verifyDKGSignature :: "env \<Rightarrow> Block \<Rightarrow> byte list \<Rightarrow> error option" where
  "verifyDKGSignature e blk seedByte =
    BLS_Verify (cr e) (DKGPubkey blk) seedByte (DKGBlockSig blk)"

text \<open>\<open>validateProposeBlock\<close>: the verdict, and the machine with the log line of the
  failed check.\<close>
definition validateProposeBlock :: "env \<Rightarrow> cFSM \<Rightarrow> Block \<Rightarrow> string \<Rightarrow> bool \<times> cFSM" where
  "validateProposeBlock e m blk expectedProposer =
    (if blk_height blk \<noteq> round_height (ctx_round (ctx m)) then
       (False, logf Error ''error when validating the block height'' m)
     else
       let producer = blk_producer blk
       in if producer = [] \<or> producer \<noteq> expectedProposer then
            (False, logf Error ''error when validating the block proposer'' m)
          else if \<not> blk_VerifySignature e blk then
            (False, logf Error ''error when validating the block signature'' m)
          else if producer = RawAddress (ctx_addr (ctx m)) then (True, m)
          else
            (case ValidateBlock e blk True of
               Some err \<Rightarrow> (False, logf Error ''error when validating the proposed block'' m)
             | None \<Rightarrow>
                 if 0 < length (DKGPubkey blk) \<and> 0 < length (DKGBlockSig blk) then
                   (case verifyDKGSignature e blk (epoch_seed (ctx_epoch (ctx m))) of
                      Some err \<Rightarrow> (False, logf Error ''Failed to verify the DKG signature'' m)
                    | None \<Rightarrow> (True, m))
                 else (True, m)))"

definition moveToAcceptProposalEndorse ::
  "env \<Rightarrow> cFSM \<Rightarrow> (State \<times> error option) result \<times> cFSM" where
  "moveToAcceptProposalEndorse e m =
    produce_then
      (TimeoutEvt (newTimeoutEvt e eEndorseProposalTimeout (round_height (ctx_round (ctx m)))))
      (AcceptProposalEndorseTTL (ctx_cfg (ctx m))) m
      (\<lambda>m. (Return (sAcceptProposalEndorse, None), m))"

text \<open>\<open>handleProposeBlockEvt\<close>. Calling \<open>Height()\<close> on the \<open>nil\<close> block of an event
  dereferences it, which is the panic.\<close>
definition handleProposeBlockEvt :: handler where
  "handleProposeBlockEvt e evt m =
    (if Type evt \<noteq> eProposeBlock then (Return (sInvalid, Some ErrInvalidEventType), m)
     else
       let m = set_round (\<lambda>r. r \<lparr> round_block := None \<rparr>) m
       in (case evt of
            ProposeBlkEvt proposeBlkEvt \<Rightarrow>
              (case evt_block proposeBlkEvt of
                 None \<Rightarrow> (Panic, m)
               | Some block \<Rightarrow>
                   (case calcProposer e (ctx m) (blk_height block)
                           (epoch_delegates (ctx_epoch (ctx m))) of
                      Inl err \<Rightarrow> (Return (sInvalid, Some err), m)
                    | Inr proposer \<Rightarrow>
                        (case validateProposeBlock e m block proposer of
                           (False, m) \<Rightarrow> (Return (sAcceptPropose, None), m)
                         | (True, m) \<Rightarrow>
                             let m = set_round (\<lambda>r. r \<lparr> round_block := Some block \<rparr>) m
                             in (case newEndorseProposalEvt e (HashBlock e block) True m of
                                   (Inl err, m) \<Rightarrow> (Return (sInvalid, Some err), m)
                                 | (Inr endorseEvt, m) \<Rightarrow>
                                     let endorseEvtProto = endorseEvt_toProtoMsg endorseEvt
                                     in produce_then (EndorseEvt endorseEvt) 0 m
                                          (\<lambda>m. moveToAcceptProposalEndorse e
                                                 (broadcast e (MsgEndorse endorseEvtProto)
                                                    ''error when broadcasting endorseEvtProto''
                                                    m))))))
           | _ \<Rightarrow> (Return (sInvalid, Some ErrEvtCast), m)))"

definition handleProposeBlockTimeout :: handler where
  "handleProposeBlockTimeout e evt m =
    (if Type evt \<noteq> eProposeBlockTimeout then (Return (sInvalid, Some ErrInvalidEventType), m)
     else
       let m = logf Warn ''didn't receive the proposed block before timeout'' m
       in moveToAcceptProposalEndorse e m)"

definition validateEndorse :: "cFSM \<Rightarrow> endorse \<Rightarrow> bool \<Rightarrow> bool \<times> cFSM" where
  "validateEndorse m en expectedEndorseTopic =
    (if en_topic en \<noteq> expectedEndorseTopic then
       (False, logf Error ''error when validating the endorse topic'' m)
     else if en_height en \<noteq> round_height (ctx_round (ctx m)) then
       (False, logf Error ''error when validating the endorse height'' m)
     else (True, m))"

definition moveToAcceptCommitEndorse ::
  "env \<Rightarrow> cFSM \<Rightarrow> (State \<times> error option) result \<times> cFSM" where
  "moveToAcceptCommitEndorse e m =
    produce_then
      (TimeoutEvt (newTimeoutEvt e eEndorseCommitTimeout (round_height (ctx_round (ctx m)))))
      (AcceptCommitEndorseTTL (ctx_cfg (ctx m))) m
      (\<lambda>m. (Return (sAcceptCommitEndorse, None), m))"

text \<open>Indexing a map of tallies: a missing key reads as the \<open>nil\<close> map, which has no
  entries.\<close>
definition endorses_of ::
  "(Hash32B \<rightharpoonup> (string \<rightharpoonup> bool)) \<Rightarrow> Hash32B \<Rightarrow> (string \<rightharpoonup> bool)" where
  "endorses_of endorsesMap blkHash =
    (case endorsesMap blkHash of None \<Rightarrow> Map.empty | Some endorses \<Rightarrow> endorses)"

text \<open>The tally of the endorsement's block hash, created empty when absent, with the
  endorser's decision written into it.\<close>
definition tally ::
  "(Hash32B \<rightharpoonup> (string \<rightharpoonup> bool)) \<Rightarrow> endorse \<Rightarrow> (Hash32B \<rightharpoonup> (string \<rightharpoonup> bool))" where
  "tally endorsesMap en =
    (let endorses = endorses_of endorsesMap (en_blkHash en)
     in endorsesMap (en_blkHash en \<mapsto> endorses (en_endorser en \<mapsto> en_decision en)))"

definition handleEndorseProposalEvt :: handler where
  "handleEndorseProposalEvt e evt m =
    (if Type evt \<noteq> eEndorseProposal then (Return (sInvalid, Some ErrInvalidEventType), m)
     else
       (case evt of
          EndorseEvt endorseEvt \<Rightarrow>
            (let en = evt_endorse endorseEvt
             in case validateEndorse m en endorseProposal of
                  (False, m) \<Rightarrow> (Return (sAcceptProposalEndorse, None), m)
                | (True, m) \<Rightarrow>
                    (let blkHash = en_blkHash en;
                         m = set_round
                               (\<lambda>r. r \<lparr> proposalEndorses := tally (proposalEndorses r) en \<rparr>) m;
                         (yes, no) = calcQuorum e (ctx m)
                                       (endorses_of (proposalEndorses (ctx_round (ctx m))) blkHash)
                     in if \<not> yes \<and> \<not> no then (Return (sAcceptProposalEndorse, None), m)
                        else
                          (case newEndorseCommitEvt e blkHash (yes \<and> \<not> no) m of
                             (Inl err, m) \<Rightarrow> (Return (sInvalid, Some err), m)
                           | (Inr cEvt, m) \<Rightarrow>
                               let cEvtProto = endorseEvt_toProtoMsg cEvt
                               in produce_then (EndorseEvt cEvt) 0 m
                                    (\<lambda>m. moveToAcceptCommitEndorse e
                                           (broadcast e (MsgEndorse cEvtProto)
                                              ''error when broadcasting commitEvtProto'' m)))))
        | _ \<Rightarrow> (Return (sInvalid, Some ErrEvtCast), m)))"

definition handleEndorseProposalTimeout :: handler where
  "handleEndorseProposalTimeout e evt m =
    (if Type evt \<noteq> eEndorseProposalTimeout
     then (Return (sInvalid, Some ErrInvalidEventType), m)
     else
       let m = logf Warn ''didn't collect enough proposal endorses before timeout'' m
       in moveToAcceptCommitEndorse e m)"

text \<open>The part of \<open>processEndorseCommit\<close> that commits and broadcasts the pending
  block. The error of \<open>CommitBlock\<close> is logged and nothing else.\<close>
definition commitPendingBlock :: "env \<Rightarrow> Block \<Rightarrow> cFSM \<Rightarrow> cFSM" where
  "commitPendingBlock e pendingBlock m =
    (let m = m \<lparr> out := out m @ [Committed pendingBlock] \<rparr>;
         m = (case CommitBlock e pendingBlock of
                Some err \<Rightarrow> logf Error ''error when committing a block'' m
              | None \<Rightarrow> m);
         m = m \<lparr> out := out m @ [ActPoolReset] \<rparr>
     in case ConvertToBlockPb e pendingBlock of
          Some blkProto \<Rightarrow>
            broadcast e (MsgBlock blkProto) ''error when broadcasting blkProto'' m
        | None \<Rightarrow> logf Error ''error when converting a block into a proto msg'' m)"

text \<open>\<open>processEndorseCommit\<close>; the prometheus counter is left out.\<close>
definition processEndorseCommit ::
  "env \<Rightarrow> bool \<Rightarrow> cFSM \<Rightarrow> (State \<times> error option) result \<times> cFSM" where
  "processEndorseCommit e consensus m =
    (let (pendingBlock, m) =
           (if consensus then
              (round_block (ctx_round (ctx m)), logf Info ''consensus reached'' m)
            else
              let m = logf Warn ''consensus did not reach'' m
              in if EnableDummyBlock (ctx_cfg (ctx m)) then
                   (Some (MintNewDummyBlock e), logf Warn ''dummy block is generated'' m)
                 else (None, m));
         m = (case pendingBlock of
                None \<Rightarrow> m
              | Some blk \<Rightarrow> commitPendingBlock e blk m)
     in produce_then (ConsensusEvt (newCEvt e eFinishEpoch)) 0 m
          (\<lambda>m. (Return (sRoundStart, None), m)))"

definition handleEndorseCommitEvt :: handler where
  "handleEndorseCommitEvt e evt m =
    (if Type evt \<noteq> eEndorseCommit then (Return (sInvalid, Some ErrInvalidEventType), m)
     else
       (case evt of
          EndorseEvt endorseEvt \<Rightarrow>
            (let en = evt_endorse endorseEvt
             in if en_topic en \<noteq> endorseCommit then (Return (sAcceptCommitEndorse, None), m)
                else
                  (let blkHash = en_blkHash en;
                       m = set_round
                             (\<lambda>r. r \<lparr> commitEndorses := tally (commitEndorses r) en \<rparr>) m;
                       (yes, no) = calcQuorum e (ctx m)
                                     (endorses_of (commitEndorses (ctx_round (ctx m))) blkHash)
                   in if \<not> yes \<and> \<not> no then (Return (sAcceptCommitEndorse, None), m)
                      else processEndorseCommit e (yes \<and> \<not> no) m))
        | _ \<Rightarrow> (Return (sInvalid, Some ErrEvtCast), m)))"

definition handleEndorseCommitTimeout :: handler where
  "handleEndorseCommitTimeout e evt m =
    (if Type evt \<noteq> eEndorseCommitTimeout
     then (Return (sInvalid, Some ErrInvalidEventType), m)
     else
       let m = logf Warn ''didn't collect enough commit endorse before timeout'' m
       in processEndorseCommit e False m)"

definition handleFinishEpochEvt :: handler where
  "handleFinishEpochEvt e evt m =
    (case isEpochFinished e (ctx m) of
       Inl err \<Rightarrow> (Return (sInvalid, Some err), m)
     | Inr finished \<Rightarrow>
         if finished then
           produce_then (ConsensusEvt (newCEvt e eRollDelegates)) 0 m
             (\<lambda>m. (Return (sEpochStart, None), m))
         else
           (case produceStartRoundEvt e m of
              (Panic, m) \<Rightarrow> (Panic, m)
            | (Blocked, m) \<Rightarrow> (Blocked, m)
            | (Return (Some err), m) \<Rightarrow> (Return (sInvalid, Some err), m)
            | (Return None, m) \<Rightarrow> (Return (sRoundStart, None), m)))"

definition handleBackdoorEvt :: handler where
  "handleBackdoorEvt e evt m =
    (case evt of
       BackdoorEvt bEvt \<Rightarrow> (Return (evt_dst bEvt, None), m)
     | _ \<Rightarrow> (Return (sInvalid, Some ErrEvtCast), m))"

section \<open>The state machine and its worker\<close>

text \<open>The transitions that \<open>newConsensusFSM\<close> adds to the builder, in its order: source
  state, event type, handler, admissible destinations.\<close>
definition transition_table :: "((State \<times> EventType) \<times> handler \<times> State list) list" where
  "transition_table =
    [((sEpochStart, eRollDelegates), handleRollDelegatesEvt, [sEpochStart, sDKGGeneration]),
     ((sDKGGeneration, eGenerateDKG), handleGenerateDKGEvt, [sRoundStart]),
     ((sRoundStart, eStartRound), handleStartRoundEvt, [sInitPropose, sAcceptPropose]),
     ((sRoundStart, eFinishEpoch), handleFinishEpochEvt, [sEpochStart, sRoundStart]),
     ((sInitPropose, eInitBlock), handleInitBlockEvt, [sAcceptPropose]),
     ((sAcceptPropose, eProposeBlock), handleProposeBlockEvt,
        [sAcceptPropose, sAcceptProposalEndorse]),
     ((sAcceptPropose, eProposeBlockTimeout), handleProposeBlockTimeout,
        [sAcceptProposalEndorse]),
     ((sAcceptProposalEndorse, eEndorseProposal), handleEndorseProposalEvt,
        [sAcceptProposalEndorse, sAcceptCommitEndorse]),
     ((sAcceptProposalEndorse, eEndorseProposalTimeout), handleEndorseProposalTimeout,
        [sAcceptCommitEndorse]),
     ((sAcceptCommitEndorse, eEndorseCommit), handleEndorseCommitEvt,
        [sAcceptCommitEndorse, sRoundStart]),
     ((sAcceptCommitEndorse, eEndorseCommitTimeout), handleEndorseCommitTimeout,
        [sRoundStart])]
    @ map (\<lambda>state. ((state, eBackdoor), handleBackdoorEvt, consensusStates)) consensusStates"

text \<open>\<open>fsm.Handle\<close> of the library go-fsm, which the state machine wraps: without
  a transition for the current state and the event's type it returns
  \<open>ErrTransitionNotFound\<close>; otherwise it runs the handler, returns the handler's error
  if there is one, refuses a destination outside the transition's list, and else moves
  to the destination. In the words of the source at \<open>sInvalid\<close>: when there is an error
  the transition to the destination state will not happen.\<close>
definition Handle :: "env \<Rightarrow> Event \<Rightarrow> cFSM \<Rightarrow> error option result \<times> cFSM" where
  "Handle e evt m =
    (case map_of transition_table (fsm_current m, Type evt) of
       None \<Rightarrow> (Return (Some ErrTransitionNotFound), m)
     | Some (h, dsts) \<Rightarrow>
         (case h e evt m of
            (Panic, m) \<Rightarrow> (Panic, m)
          | (Blocked, m) \<Rightarrow> (Blocked, m)
          | (Return (dst, Some err), m) \<Rightarrow> (Return (Some err), m)
          | (Return (dst, None), m) \<Rightarrow>
              if dst \<in> set dsts then (Return None, m \<lparr> fsm_current := dst \<rparr>)
              else (Return (Some ErrInvalidTransition), m)))"

text \<open>The body of the worker's loop in \<open>Start\<close> for an event \<open>evt\<close> received from the
  channel. A panic of a handler ends the worker; a blocked send ends its progress.\<close>
definition Start_handle :: "env \<Rightarrow> Event \<Rightarrow> cFSM \<Rightarrow> cFSM result" where
  "Start_handle e evt m =
    (if is_timeoutEvt evt \<and> Before (timestamp evt) (round_timestamp (ctx_round (ctx m)))
     then Return (logf Debug ''timeoutEvt is stale'' m)
     else
       (case Handle e evt m of
          (Panic, m) \<Rightarrow> Panic
        | (Blocked, m) \<Rightarrow> Blocked
        | (Return (Some err), m) \<Rightarrow>
            if err = ErrTransitionNotFound then
              (if Sub (now e) (timestamp evt) \<le> UnmatchedEventTTL (ctx_cfg (ctx m)) then
                 (case produce evt (UnmatchedEventInterval (ctx_cfg (ctx m))) m of
                    None \<Rightarrow> Blocked
                  | Some m \<Rightarrow>
                      Return (logf Debug ''consensusEvt state transition could find the match''
                                m))
               else Return m)
            else Return (logf Error ''consensusEvt state transition fails'' m)
        | (Return None, m) \<Rightarrow>
            Return (logf Debug ''consensusEvt state transition happens'' m)))"

text \<open>One turn of the worker: it takes the event at the head of the channel, and waits
  (the machine is unchanged) when the channel is empty.\<close>
definition Start_step :: "env \<Rightarrow> cFSM \<Rightarrow> cFSM result" where
  "Start_step e m =
    (case evtq m of
       [] \<Rightarrow> Return m
     | evt # q \<Rightarrow> Start_handle e evt (m \<lparr> evtq := q \<rparr>))"

section \<open>Seed aggregation\<close>

text \<open>The loop of \<open>updateSeed\<close> over the heights \<open>i\<close>, with the three selections grown
  in step. The counter is a \<open>uint64\<close> and wraps around, so the loop need not end.\<close>
partial_function (option) updateSeed_loop ::
  "env \<Rightarrow> uint64 \<Rightarrow> uint64 \<Rightarrow> byte list list \<times> byte list list \<times> byte list list \<Rightarrow>
   (byte list list \<times> byte list list \<times> byte list list) option" where
  "updateSeed_loop e i endHeight sel =
    (case sel of
       (selectedID, selectedSig, selectedPK) \<Rightarrow>
         if i \<le> endHeight \<and> int (length selectedID) < Degree (cr e) + 1 then
           (case GetBlockByHeight e i of
              Inl err \<Rightarrow> updateSeed_loop e (i + 1) endHeight sel
            | Inr blk \<Rightarrow>
                if 0 < length (DKGID blk) \<and> 0 < length (DKGPubkey blk)
                   \<and> 0 < length (DKGBlockSig blk)
                then updateSeed_loop e (i + 1) endHeight
                       (selectedID @ [DKGID blk], selectedSig @ [DKGBlockSig blk],
                        selectedPK @ [DKGPubkey blk])
                else updateSeed_loop e (i + 1) endHeight sel)
         else Some sel)"

text \<open>\<open>updateSeed\<close>: the seed and the error; \<open>None\<close> when the loop does not end.\<close>
definition updateSeed :: "env \<Rightarrow> cFSM \<Rightarrow> (byte list \<times> error option) option" where
  "updateSeed e m =
    (let numDlgs = NumDelegates (ctx_cfg (ctx m))
     in case calcEpochNumAndHeight e (ctx m) of
          Inl err \<Rightarrow> Some ([], Some err)
        | Inr (epochNum, epochHeight) \<Rightarrow>
            if epochNum \<le> 1 then Some ([], None)
            else
              let endHeight = epochHeight - 1;
                  startHeight = numDlgs * NumSubEpochs (ctx_cfg (ctx m)) * (epochNum - 2) + 1
              in (case updateSeed_loop e startHeight endHeight ([], [], []) of
                    None \<Rightarrow> None
                  | Some (selectedID, selectedSig, selectedPK) \<Rightarrow>
                      if int (length selectedID) < Degree (cr e) + 1
                      then Some ([], Some ErrNotEnoughDKG)
                      else
                        (case BLS_SignAggregate (cr e) selectedID selectedSig of
                           Inl err \<Rightarrow> Some ([], Some err)
                         | Inr aggregateSig \<Rightarrow>
                             (case BLS_VerifyAggregate (cr e) selectedID selectedPK
                                     (epoch_seed (ctx_epoch (ctx m))) aggregateSig of
                                Some err \<Rightarrow> Some ([], Some err)
                              | None \<Rightarrow> Some (aggregateSig, None)))))"

section \<open>Notions used in the properties\<close>

text \<open>The conditions of the specification for a proposed block, against the
  proposer expected for its height: (1) the height of the round, (2) a non-empty
  producer equal to the expected proposer, (3) a valid signature, and, unless the
  producer is the local node, (4) validation by the chain and (5) a valid DKG signature
  over the seed of the epoch when the block carries both a DKG public key and a DKG
  signature.\<close>
definition propose_checks :: "env \<Rightarrow> cFSM \<Rightarrow> Block \<Rightarrow> string \<Rightarrow> bool" where
  "propose_checks e m blk expectedProposer \<longleftrightarrow>
     blk_height blk = round_height (ctx_round (ctx m))
   \<and> blk_producer blk \<noteq> [] \<and> blk_producer blk = expectedProposer
   \<and> blk_VerifySignature e blk
   \<and> (blk_producer blk = RawAddress (ctx_addr (ctx m))
      \<or> (ValidateBlock e blk True = None
         \<and> (DKGPubkey blk \<noteq> [] \<and> DKGBlockSig blk \<noteq> [] \<longrightarrow>
              BLS_Verify (cr e) (DKGPubkey blk) (epoch_seed (ctx_epoch (ctx m)))
                (DKGBlockSig blk) = None)))"

text \<open>The local node's signed endorsement of a proposed block, for the height of the
  round.\<close>
definition own_proposal_endorse :: "env \<Rightarrow> cFSM \<Rightarrow> Block \<Rightarrow> endorse" where
  "own_proposal_endorse e m blk =
    (let en = \<lparr> en_topic = endorseProposal, en_height = round_height (ctx_round (ctx m)),
                en_blkHash = HashBlock e blk, en_decision = True, en_endorser = [],
                en_endorserPubkey = ZeroPublicKey (cr e), en_signature = [] \<rparr>
     in en \<lparr> en_endorser := RawAddress (ctx_addr (ctx m)),
             en_endorserPubkey := PublicKey (ctx_addr (ctx m)),
             en_signature := EC283_Sign (cr e) (PrivateKey (ctx_addr (ctx m)))
                               (Rep_Hash32B (Hash (cr e) en)) \<rparr>)"

text \<open>The messages broadcast, and the blocks handed to \<open>CommitBlock\<close>, in a trace.\<close>
fun sent_msgs :: "effect list \<Rightarrow> message list" where
  "sent_msgs [] = []"
| "sent_msgs (Sent c msg # es) = msg # sent_msgs es"
| "sent_msgs (x # es) = sent_msgs es"

fun committed_blocks :: "effect list \<Rightarrow> Block list" where
  "committed_blocks [] = []"
| "committed_blocks (Committed blk # es) = blk # committed_blocks es"
| "committed_blocks (x # es) = committed_blocks es"

text \<open>A proposed block is accepted by a step from machine \<open>m\<close> with result \<open>r\<close>: the
  step succeeds, the machine is in \<open>sAcceptProposalEndorse\<close>, the block is the block of
  the round, and the node's endorsement of it has been broadcast and put on the
  machine's own channel.\<close>
definition proposal_accepted ::
  "env \<Rightarrow> cFSM \<Rightarrow> Block \<Rightarrow> error option result \<times> cFSM \<Rightarrow> bool" where
  "proposal_accepted e m blk r \<longleftrightarrow>
     fst r = Return None
   \<and> fsm_current (snd r) = sAcceptProposalEndorse
   \<and> round_block (ctx_round (ctx (snd r))) = Some blk
   \<and> sent_msgs (out (snd r))
       = sent_msgs (out m) @ [MsgEndorse (endorse_toProtoMsg (own_proposal_endorse e m blk))]
   \<and> EndorseEvt \<lparr> evt_t = eEndorseProposal, evt_ts = now e,
                   evt_endorse = own_proposal_endorse e m blk \<rparr>
       \<in> set (drop (length (evtq m)) (evtq (snd r)))"

text \<open>The machine \<open>m\<close> with a commit endorsement written into the tally of the round.\<close>
definition commit_tallied :: "cFSM \<Rightarrow> endorse \<Rightarrow> cFSM" where
  "commit_tallied m en =
    set_round (\<lambda>r. r \<lparr> commitEndorses := tally (commitEndorses r) en \<rparr>) m"

text \<open>The outcome of a failed agreement, for a step from machine \<open>m\<close> with result \<open>r\<close>:
  the step handed the chain's dummy block to \<open>CommitBlock\<close> when dummy blocks are
  enabled and no block otherwise; then, when the channel had a free slot, the step
  succeeded, the machine is in \<open>sRoundStart\<close> and a \<open>FinishEpoch\<close> event is on the
  channel; and when the channel was full, the worker is blocked in the send of that
  event, with the state and the channel as they were.\<close>
definition agreement_failure_outcome ::
  "env \<Rightarrow> cFSM \<Rightarrow> error option result \<times> cFSM \<Rightarrow> bool" where
  "agreement_failure_outcome e m r \<longleftrightarrow>
     committed_blocks (out (snd r))
       = committed_blocks (out m)
         @ (if EnableDummyBlock (ctx_cfg (ctx m)) then [MintNewDummyBlock e] else [])
   \<and> (if evtq_room 1 m
       then fst r = Return None
          \<and> fsm_current (snd r) = sRoundStart
          \<and> evtq (snd r) = evtq m @ [ConsensusEvt \<lparr> evt_t = eFinishEpoch, evt_ts = now e \<rparr>]
       else fst r = Blocked
          \<and> fsm_current (snd r) = fsm_current m
          \<and> evtq (snd r) = evtq m)"

text \<open>A block bears DKG material when its DKG id, public key and signature are all
  non-empty.\<close>
definition hasDKG :: "Block \<Rightarrow> bool" where
  "hasDKG blk \<longleftrightarrow> DKGID blk \<noteq> [] \<and> DKGPubkey blk \<noteq> [] \<and> DKGBlockSig blk \<noteq> []"

text \<open>The blocks that the chain returns for the heights from \<open>startHeight\<close> up to
  \<open>endHeight\<close>, in this order; a height without a block is passed over.\<close>
definition blocks_in :: "env \<Rightarrow> uint64 \<Rightarrow> uint64 \<Rightarrow> Block list" where
  "blocks_in e startHeight endHeight =
    List.map_filter
      (\<lambda>h. case GetBlockByHeight e (of_nat h) of Inl err \<Rightarrow> None | Inr blk \<Rightarrow> Some blk)
      [unat startHeight ..< Suc (unat endHeight)]"

text \<open>The first \<open>Degree + 1\<close> blocks with DKG material in a window of heights.\<close>
definition seed_selection :: "env \<Rightarrow> uint64 \<Rightarrow> uint64 \<Rightarrow> Block list" where
  "seed_selection e startHeight endHeight =
    take (nat (Degree (cr e) + 1)) (filter hasDKG (blocks_in e startHeight endHeight))"

section \<open>Stand-ins for evaluation\<close>

text \<open>A stand-in for the cryptography, in the manner of the mocks of the test suite:
  every byte string parses as a public key, a signature is the key followed by the
  hash, and a BLS signature verifies when it repeats the message.\<close>
definition stub_crypto :: crypto where
  "stub_crypto =
    \<lparr> blake2b_Sum256 = (\<lambda>bs. Abs_Hash32B (replicate 32 0)),
      EC283_Sign = (\<lambda>sk h. sk @ h),
      EC283_Verify = (\<lambda>pk h sg. True),
      HashPubKey = (\<lambda>pk. pk),
      GetPubkeyHash = (\<lambda>a. Inr []),
      BytesToPublicKey = Inr,
      ZeroPublicKey = [0],
      ZeroPrivateKey = [0],
      Degree = 1,
      BLS_Verify = (\<lambda>pk msg sg. if sg = msg then None else Some (ErrExternal ''bls'')),
      BLS_SignAggregate = (\<lambda>ids sigs. Inr (concat sigs)),
      BLS_VerifyAggregate = (\<lambda>ids pks seed agg. None) \<rparr>"

text \<open>A signed commit endorsement of height 7.\<close>
definition stub_endorse :: endorse where
  "stub_endorse =
    \<lparr> en_topic = True, en_height = 7, en_blkHash = Abs_Hash32B (replicate 32 0),
      en_decision = True, en_endorser = ''io1alice'', en_endorserPubkey = [1],
      en_signature = [2, 0] \<rparr>"

text \<open>The local node.\<close>
definition stub_addr :: Address where
  "stub_addr = \<lparr> RawAddress = ''io1bob'', PublicKey = [1], PrivateKey = [2] \<rparr>"

text \<open>A block of height 7 produced by another delegate, with a DKG signature that
  repeats the seed of the epoch.\<close>
definition stub_block :: Block where
  "stub_block =
    \<lparr> blk_height = 7, blk_producer = ''io1alice'', blk_timestamp = 9000000000,
      DKGID = [1], DKGPubkey = [3], DKGBlockSig = [4],
      blk_blockSig = [5], blk_actions = [] \<rparr>"

text \<open>Collaborators at time 10 s: the chain validates every block, holds no block to
  read, and fails every commit; the network delivers; nobody has a quorum.\<close>
definition stub_env :: env where
  "stub_env =
    \<lparr> now = 10000000000,
      cr = stub_crypto,
      calcEpochNumAndHeight = (\<lambda>c. Inr (1, 1)),
      rollingDelegates = (\<lambda>c n. Inr [''io1alice'', ''io1bob'']),
      generateDKG = (\<lambda>c. Inr []),
      rotatedProposer = (\<lambda>c. Inr (''io1alice'', 7)),
      mintBlock = (\<lambda>c. Inr stub_block),
      calcProposer = (\<lambda>c h ds. Inr ''io1alice''),
      calcQuorum = (\<lambda>c t. (False, False)),
      isEpochFinished = (\<lambda>c. Inr False),
      calcDurationSinceLastBlock = (\<lambda>c. Inr 0),
      ChainID = 1,
      ValidateBlock = (\<lambda>b a. None),
      CommitBlock = (\<lambda>b. Some (ErrExternal ''commit'')),
      MintNewDummyBlock = stub_block \<lparr> blk_producer := [] \<rparr>,
      GetBlockByHeight = (\<lambda>h. Inl (ErrExternal ''no block'')),
      Broadcast = (\<lambda>c msg. None),
      HashBlock = (\<lambda>b. Abs_Hash32B (replicate 32 0)),
      blk_VerifySignature = (\<lambda>b. True),
      IsDummyBlock = (\<lambda>b. blk_producer b = []),
      ConvertToBlockPb = (\<lambda>b. Some []),
      ConvertFromBlockPb = (\<lambda>pb. stub_block) \<rparr>"

definition stub_round :: roundCtx where
  "stub_round =
    \<lparr> round_height = 7, round_timestamp = 9000000000, round_block = None,
      proposalEndorses = Map.empty, commitEndorses = Map.empty,
      round_proposer = ''io1alice'' \<rparr>"

text \<open>A machine in a given state, in a round of height 7 that started at 9 s, with an
  empty channel.\<close>
definition stub_fsm :: "State \<Rightarrow> cFSM" where
  "stub_fsm st =
    \<lparr> fsm_current = st, evtq = [], timers = [],
      ctx = \<lparr> ctx_cfg = DefaultRollDPoS, ctx_addr = stub_addr,
              ctx_epoch = \<lparr> epoch_num = 1, epoch_height = 1,
                            epoch_delegates = [''io1alice'', ''io1bob''],
                            numSubEpochs = 1, epoch_dkg = [], epoch_seed = [4] \<rparr>,
              ctx_round = stub_round \<rparr>,
      out = [] \<rparr>"

text \<open>The same machine on a node whose private key is the zero key.\<close>
definition keyless_fsm :: "State \<Rightarrow> cFSM" where
  "keyless_fsm st =
    (stub_fsm st)
      \<lparr> ctx := (ctx (stub_fsm st)) \<lparr> ctx_addr := stub_addr \<lparr> PrivateKey := [0] \<rparr> \<rparr> \<rparr>"

text \<open>The machine in \<open>sAcceptPropose\<close> with a block already held by the round.\<close>
definition holding_fsm :: cFSM where
  "holding_fsm =
    (stub_fsm sAcceptPropose)
      \<lparr> ctx := (ctx (stub_fsm sAcceptPropose))
                 \<lparr> ctx_round := stub_round \<lparr> round_block := Some stub_block \<rparr> \<rparr> \<rparr>"

text \<open>The same machine with a channel of capacity 1 that holds one event.\<close>
definition full_fsm :: "State \<Rightarrow> cFSM" where
  "full_fsm st =
    (stub_fsm st)
      \<lparr> evtq := [ConsensusEvt \<lparr> evt_t = eStartRound, evt_ts = 9000000000 \<rparr>],
        ctx := (ctx (stub_fsm st)) \<lparr> ctx_cfg := DefaultRollDPoS \<lparr> EventChanSize := 1 \<rparr> \<rparr> \<rparr>"

text \<open>The proposal of the stand-in block, created at 9.5 s.\<close>
definition stub_propose_evt :: proposeBlkEvt where
  "stub_propose_evt =
    \<lparr> evt_t = eProposeBlock, evt_ts = 9500000000, evt_block = Some stub_block \<rparr>"

text \<open>A proposal for the wrong height.\<close>
definition bad_propose_evt :: proposeBlkEvt where
  "bad_propose_evt =
    \<lparr> evt_t = eProposeBlock, evt_ts = 9500000000,
      evt_block = Some (stub_block \<lparr> blk_height := 8 \<rparr>) \<rparr>"

text \<open>A timeout created at 8 s, before the round started.\<close>
definition stale_timeout :: consensusEvt where
  "stale_timeout = \<lparr> evt_t = eEndorseProposalTimeout, evt_ts = 8000000000 \<rparr>"

text \<open>The timeout of the commit phase of the round.\<close>
definition commit_timeout :: consensusEvt where
  "commit_timeout = \<lparr> evt_t = eEndorseCommitTimeout, evt_ts = 9500000000 \<rparr>"

text \<open>Proposal endorsements that arrived 9 s and 0.5 s ago.\<close>
definition old_endorse_evt :: endorseEvt where
  "old_endorse_evt =
    \<lparr> evt_t = eEndorseProposal, evt_ts = 1000000000,
      evt_endorse = stub_endorse \<lparr> en_topic := False \<rparr> \<rparr>"

definition young_endorse_evt :: endorseEvt where
  "young_endorse_evt =
    \<lparr> evt_t = eEndorseProposal, evt_ts = 9500000000,
      evt_endorse = stub_endorse \<lparr> en_topic := False \<rparr> \<rparr>"

text \<open>A commit endorsement and a proposal endorsement for height 99, while the round is
  at height 7.\<close>
definition far_commit_evt :: endorseEvt where
  "far_commit_evt =
    \<lparr> evt_t = eEndorseCommit, evt_ts = 9500000000,
      evt_endorse = stub_endorse \<lparr> en_height := 99 \<rparr> \<rparr>"

definition far_proposal_evt :: endorseEvt where
  "far_proposal_evt =
    \<lparr> evt_t = eEndorseProposal, evt_ts = 9500000000,
      evt_endorse = stub_endorse \<lparr> en_height := 99, en_topic := False \<rparr> \<rparr>"

text \<open>Collaborators that report a quorum of "no".\<close>
definition no_quorum_env :: env where
  "no_quorum_env = stub_env \<lparr> calcQuorum := (\<lambda>c t. (False, True)) \<rparr>"

text \<open>A chain with DKG-bearing blocks at heights 1 and 2, at the start of epoch 2 (height
  3) of a committee of two delegates.\<close>
definition seed_env :: env where
  "seed_env =
    stub_env \<lparr> calcEpochNumAndHeight := (\<lambda>c. Inr (2, 3)),
               GetBlockByHeight :=
                 (\<lambda>h. if h = 1 \<or> h = 2 then Inr (stub_block \<lparr> blk_height := h \<rparr>)
                      else Inl (ErrExternal ''no block'')) \<rparr>"

definition seed_fsm :: cFSM where
  "seed_fsm =
    (stub_fsm sEpochStart)
      \<lparr> ctx := (ctx (stub_fsm sEpochStart))
                 \<lparr> ctx_cfg := DefaultRollDPoS \<lparr> NumDelegates := 2 \<rparr> \<rparr> \<rparr>"

section \<open>Properties of the configuration validator\<close>

text \<open>Claim C4. The error text of \<open>ValidateRollDPoS\<close> asks for the dummy block to be
  enabled under time based rotation, but the test it guards is the conjunction of the
  two flags: the default roll-DPoS configuration with time based rotation and without
  dummy blocks is accepted, and the one with both flags set is rejected with that very
  text.\<close>
theorem ValidateRollDPoS_rotation_flags:
  "ValidateRollDPoS (rollDPoSConfig False True) = None
   \<and> ValidateRollDPoS (rollDPoSConfig True True)
       = Some (ErrInvalidCfg
           ''roll-DPoS should enable dummy block when doing time based rotation'')"
  by (simp add: ValidateRollDPoS_def rollDPoSConfig_def DefaultRollDPoS_def RollDPoSScheme_def)

section \<open>Properties of endorsements\<close>

lemma unat_byte_of_shift:
  "unat (ucast (drop_bit n (v::64 word)) :: 8 word) = unat v div 2 ^ n mod 256"
proof -
  have "unat (ucast (drop_bit n v) :: 8 word) = unat (drop_bit n v) mod 256"
    by (simp add: unsigned_ucast_eq take_bit_eq_mod)
  also have "unat (drop_bit n v) = unat v div 2 ^ n"
    unfolding unat_drop_bit_eq by (simp add: drop_bit_eq_div)
  finally show ?thesis .
qed

lemma length_Rep_Hash32B: "length (Rep_Hash32B h) = 32"
  using Rep_Hash32B [of h] by simp

lemma Rep_zero_Hash32B: "Rep_Hash32B (Abs_Hash32B (replicate 32 0)) = replicate 32 0"
  by (simp add: Abs_Hash32B_inverse)

text \<open>Claim C8. The byte stream of an endorsement is the height in eight bytes, least
  significant first (byte \<open>i\<close> is the \<open>i\<close>-th digit of the height in base 256), then one
  byte for the topic (0 for a proposal, 1 for a commit), then the 32 bytes of the block
  hash, then one byte for the decision (1 for true, 0 for false): 42 bytes in all. The
  hash for the signature is BLAKE2b-256 of that stream.\<close>
theorem ByteStream_layout:
  "ByteStream en =
      MachineEndian_PutUint64 (en_height en)
        @ [if en_topic en = endorseCommit then 1 else 0]
        @ Rep_Hash32B (en_blkHash en)
        @ [if en_decision en then 1 else 0]
   \<and> map unat (MachineEndian_PutUint64 (en_height en))
        = map (\<lambda>i. unat (en_height en) div 256 ^ i mod 256) [0..<8]
   \<and> length (Rep_Hash32B (en_blkHash en)) = 32
   \<and> length (ByteStream en) = 42
   \<and> Hash cry en = blake2b_Sum256 cry (ByteStream en)"
proof -
  have a: "map unat (MachineEndian_PutUint64 (en_height en))
      = map (\<lambda>i. unat (en_height en) div 256 ^ i mod 256) [0..<8]"
    using unat_byte_of_shift [of 0 "en_height en"] unat_byte_of_shift [of 8 "en_height en"]
      unat_byte_of_shift [of 16 "en_height en"] unat_byte_of_shift [of 24 "en_height en"]
      unat_byte_of_shift [of 32 "en_height en"] unat_byte_of_shift [of 40 "en_height en"]
      unat_byte_of_shift [of 48 "en_height en"] unat_byte_of_shift [of 56 "en_height en"]
    by (simp add: MachineEndian_PutUint64_def upt_rec)
  have b: "ByteStream en =
      MachineEndian_PutUint64 (en_height en)
        @ [if en_topic en = endorseCommit then 1 else 0]
        @ Rep_Hash32B (en_blkHash en)
        @ [if en_decision en then 1 else 0]"
    by (simp add: ByteStream_def Let_def endorseCommit_def)
  have c: "length (ByteStream en) = 42"
    by (simp add: b length_Rep_Hash32B MachineEndian_PutUint64_def)
  show ?thesis using a b c by (simp add: length_Rep_Hash32B Hash_def)
qed

lemma go_copy_same_length: "length dst = length src \<Longrightarrow> go_copy dst src = src"
  by (simp add: go_copy_def)

lemma go_copy_into_nil: "go_copy [] src = []"
  by (simp add: go_copy_def)

text \<open>Claim C3. Decoding the wire form of an endorsement into a fresh record, as
  \<open>newEndorseEvtWithEndorsePb\<close> does, gives back every field but the signature: the
  fresh record's signature is the \<open>nil\<close> slice, \<open>copy\<close> writes nothing into it, and the
  decoded signature is empty.\<close>
theorem endorse_roundtrip_drops_signature:
  assumes "BytesToPublicKey cry (en_endorserPubkey en) = Inr (en_endorserPubkey en)"
  shows "endorse_of_EndorsePb cry (endorse_toProtoMsg en) = Inr (en \<lparr> en_signature := [] \<rparr>)"
proof -
  have h: "Abs_Hash32B (go_copy (replicate 32 0) (Rep_Hash32B (en_blkHash en)))
      = en_blkHash en"
    by (simp add: go_copy_same_length length_Rep_Hash32B Rep_Hash32B_inverse)
  show ?thesis using assms
    by (cases "en_topic en")
       (simp_all add: endorse_of_EndorsePb_def endorse_fromProtoMsg_def endorse_toProtoMsg_def
        zero_endorse_def Let_def h Rep_zero_Hash32B go_copy_into_nil endorseProposal_def
        endorseCommit_def)
qed

theorem endorse_roundtrip_drops_signature_witness:
  "BytesToPublicKey stub_crypto (en_endorserPubkey stub_endorse)
     = Inr (en_endorserPubkey stub_endorse)
   \<and> endorse_of_EndorsePb stub_crypto (endorse_toProtoMsg stub_endorse)
     = Inr (stub_endorse \<lparr> en_signature := [] \<rparr>)
   \<and> en_signature stub_endorse = [2, 0]"
proof -
  have p: "BytesToPublicKey stub_crypto (en_endorserPubkey stub_endorse)
     = Inr (en_endorserPubkey stub_endorse)"
    by (simp add: stub_crypto_def)
  show ?thesis
    using p endorse_roundtrip_drops_signature [OF p] by (simp add: stub_endorse_def)
qed

section \<open>Properties of the worker\<close>

text \<open>Claim C2. When the worker takes a timeout event from the channel whose time stamp
  is before the time stamp of the current round, the machine afterwards is the machine
  before without that event and with one debug line in its trace: the state, the round
  and epoch contexts, the rest of the channel and the delayed producers are unchanged,
  and no handler runs. This holds for a timeout event of any type.\<close>
theorem stale_timeout_dropped:
  assumes "evtq m = TimeoutEvt c # q"
    and "evt_ts c < round_timestamp (ctx_round (ctx m))"
  shows "Start_step e m =
    Return (m \<lparr> evtq := q, out := out m @ [Log Debug ''timeoutEvt is stale''] \<rparr>)"
  using assms by (simp add: Start_step_def Start_handle_def Before_def logf_def)

theorem stale_timeout_dropped_witness:
  "evtq ((stub_fsm sAcceptPropose) \<lparr> evtq := [TimeoutEvt stale_timeout] \<rparr>)
     = TimeoutEvt stale_timeout # []
   \<and> evt_ts stale_timeout
     < round_timestamp
         (ctx_round (ctx ((stub_fsm sAcceptPropose) \<lparr> evtq := [TimeoutEvt stale_timeout] \<rparr>)))
   \<and> Start_step stub_env ((stub_fsm sAcceptPropose) \<lparr> evtq := [TimeoutEvt stale_timeout] \<rparr>)
     = Return ((stub_fsm sAcceptPropose) \<lparr> out := [Log Debug ''timeoutEvt is stale''] \<rparr>)"
proof -
  let ?m = "(stub_fsm sAcceptPropose) \<lparr> evtq := [TimeoutEvt stale_timeout] \<rparr>"
  have a: "evtq ?m = TimeoutEvt stale_timeout # []" by simp
  have b: "evt_ts stale_timeout < round_timestamp (ctx_round (ctx ?m))"
    by (simp add: stale_timeout_def stub_fsm_def stub_round_def)
  show ?thesis
    using a b stale_timeout_dropped [OF a b, of stub_env] by (simp add: stub_fsm_def)
qed

lemma no_edge_RoundStart_EndorseProposal:
  "map_of transition_table (sRoundStart, eEndorseProposal) = None"
  by (simp add: transition_table_def consensusStates_def)

lemma no_edge_AcceptPropose_EndorseProposalTimeout:
  "map_of transition_table (sAcceptPropose, eEndorseProposalTimeout) = None"
  by (simp add: transition_table_def consensusStates_def)


text \<open>Claim C7, as the code has it. For an event received by the worker that is not a
  stale timeout and has no transition from the current state: when the time since the
  event's creation is at most \<open>UnmatchedEventTTL\<close>, the event is produced again with the
  delay \<open>UnmatchedEventInterval\<close> and one debug line is logged (a positive interval
  starts a delayed producer; with a non-positive interval the worker sends at once,
  which needs a free slot in the channel and blocks the worker without one); otherwise
  the machine is left exactly as it was, with no log line and nothing produced. In
  every case the state is unchanged.\<close>
theorem unmatched_event_redelivery:
  assumes "map_of transition_table (fsm_current m, Type evt) = None"
    and "\<not> (is_timeoutEvt evt \<and> timestamp evt < round_timestamp (ctx_round (ctx m)))"
  shows "Start_handle e evt m =
      (if Sub (now e) (timestamp evt) \<le> UnmatchedEventTTL (ctx_cfg (ctx m)) then
         if 0 < UnmatchedEventInterval (ctx_cfg (ctx m)) then
           Return (m \<lparr> timers := timers m @ [(UnmatchedEventInterval (ctx_cfg (ctx m)), evt)],
                       out := out m
                         @ [Log Debug ''consensusEvt state transition could find the match''] \<rparr>)
         else if evtq_room 1 m then
           Return (m \<lparr> evtq := evtq m @ [evt],
                       out := out m
                         @ [Log Debug ''consensusEvt state transition could find the match''] \<rparr>)
         else Blocked
       else Return m)
    \<and> (case Start_handle e evt m of
          Return m' \<Rightarrow> fsm_current m' = fsm_current m
        | Blocked \<Rightarrow> True
        | Panic \<Rightarrow> False)"
  using assms
  by (auto simp add: Start_handle_def Handle_def Before_def logf_def produce_def evtq_room_def)

theorem unmatched_event_redelivery_witness:
  "map_of transition_table (fsm_current (stub_fsm sRoundStart), Type (EndorseEvt young_endorse_evt))
     = None
   \<and> Start_handle stub_env (EndorseEvt young_endorse_evt) (stub_fsm sRoundStart)
     = Return ((stub_fsm sRoundStart)
         \<lparr> timers := [(100000000, EndorseEvt young_endorse_evt)],
           out := [Log Debug ''consensusEvt state transition could find the match''] \<rparr>)"
proof -
  let ?m = "stub_fsm sRoundStart"
  let ?evt = "EndorseEvt young_endorse_evt"
  have a: "map_of transition_table (fsm_current ?m, Type ?evt) = None"
    by (simp add: stub_fsm_def young_endorse_evt_def no_edge_RoundStart_EndorseProposal)
  have b: "\<not> (is_timeoutEvt ?evt \<and> timestamp ?evt < round_timestamp (ctx_round (ctx ?m)))"
    by simp
  have c: "Sub (now stub_env) (timestamp ?evt) \<le> UnmatchedEventTTL (ctx_cfg (ctx ?m))"
    by (simp add: Sub_def stub_env_def young_endorse_evt_def stub_fsm_def DefaultRollDPoS_def
        minDuration_def maxDuration_def)
  have d: "UnmatchedEventInterval (ctx_cfg (ctx ?m)) = 100000000"
    by (simp add: stub_fsm_def DefaultRollDPoS_def)
  show ?thesis
    using a unmatched_event_redelivery [OF a b, of stub_env] c d
    by (simp add: stub_fsm_def)
qed

text \<open>Claim C7 as stated fails in two ways. A proposal endorsement created 9 s ago that
  reaches the machine in \<open>sRoundStart\<close> has no transition and is older than the 3 s of
  \<open>UnmatchedEventTTL\<close>: the machine is left as it was, with an empty trace, so no log
  line is written. A timeout created 2 s ago, before the round started, that reaches
  the machine in \<open>sAcceptPropose\<close> has no transition and is young enough, but it is
  dropped as stale and not produced again.\<close>
theorem unmatched_event_counterexample:
  "map_of transition_table
       (fsm_current (stub_fsm sRoundStart), Type (EndorseEvt old_endorse_evt)) = None
   \<and> UnmatchedEventTTL (ctx_cfg (ctx (stub_fsm sRoundStart)))
       < Sub (now stub_env) (timestamp (EndorseEvt old_endorse_evt))
   \<and> Start_handle stub_env (EndorseEvt old_endorse_evt) (stub_fsm sRoundStart)
       = Return (stub_fsm sRoundStart)
   \<and> out (stub_fsm sRoundStart) = []
   \<and> map_of transition_table
       (fsm_current (stub_fsm sAcceptPropose), Type (TimeoutEvt stale_timeout)) = None
   \<and> Sub (now stub_env) (timestamp (TimeoutEvt stale_timeout))
       \<le> UnmatchedEventTTL (ctx_cfg (ctx (stub_fsm sAcceptPropose)))
   \<and> Start_handle stub_env (TimeoutEvt stale_timeout) (stub_fsm sAcceptPropose)
       = Return ((stub_fsm sAcceptPropose) \<lparr> out := [Log Debug ''timeoutEvt is stale''] \<rparr>)
   \<and> evtq (stub_fsm sAcceptPropose) = [] \<and> timers (stub_fsm sAcceptPropose) = []"
  by (simp add: no_edge_RoundStart_EndorseProposal no_edge_AcceptPropose_EndorseProposalTimeout
      Start_handle_def Handle_def stub_fsm_def old_endorse_evt_def stale_timeout_def
      stub_env_def Sub_def minDuration_def maxDuration_def DefaultRollDPoS_def Before_def
      stub_round_def logf_def)

section \<open>Properties of the proposal handler\<close>

lemma sent_msgs_append: "sent_msgs (xs @ ys) = sent_msgs xs @ sent_msgs ys"
  by (induction xs rule: sent_msgs.induct) auto

lemma edge_AcceptPropose_ProposeBlock:
  "map_of transition_table (sAcceptPropose, eProposeBlock)
    = Some (handleProposeBlockEvt, [sAcceptPropose, sAcceptProposalEndorse])"
  by (simp add: transition_table_def)

lemma validateProposeBlock_verdict: "fst (validateProposeBlock e m blk p) = propose_checks e m blk p"
  by (auto simp add: validateProposeBlock_def propose_checks_def verifyDKGSignature_def Let_def
      split: option.splits)

lemma validateProposeBlock_accepting: "fst (validateProposeBlock e m blk p) \<Longrightarrow> snd (validateProposeBlock e m blk p) = m"
  by (auto simp add: validateProposeBlock_def verifyDKGSignature_def Let_def
      split: option.splits if_splits)

lemma validateProposeBlock_frame:
  "fsm_current (snd (validateProposeBlock e m blk p)) = fsm_current m
   \<and> ctx (snd (validateProposeBlock e m blk p)) = ctx m"
  by (auto simp add: validateProposeBlock_def verifyDKGSignature_def Let_def logf_def
      split: option.splits if_splits)

lemma propose_checks_cleared:
  "propose_checks e (set_round (\<lambda>r. r \<lparr> round_block := None \<rparr>) m) blk p = propose_checks e m blk p"
  by (simp add: propose_checks_def set_round_def)

lemma Handle_ok:
  "map_of transition_table (fsm_current m, Type evt) = Some (h, dsts) \<Longrightarrow>
   h e evt m = (Return (dst, None), m') \<Longrightarrow> dst \<in> set dsts \<Longrightarrow>
   Handle e evt m = (Return None, m' \<lparr> fsm_current := dst \<rparr>)"
  by (simp add: Handle_def)

lemma Handle_err:
  "map_of transition_table (fsm_current m, Type evt) = Some (h, dsts) \<Longrightarrow>
   h e evt m = (Return (dst, Some err), m') \<Longrightarrow>
   Handle e evt m = (Return (Some err), m')"
  by (simp add: Handle_def)

text \<open>Claim C10. The handler of a proposal clears the block of the round before it
  validates: when a \<open>ProposeBlock\<close> event with a block is handled in \<open>sAcceptPropose\<close>,
  the expected proposer is found and the validation of the block fails, the step
  succeeds, the machine stays in \<open>sAcceptPropose\<close> and the block of the round is \<open>nil\<close>,
  whatever block the round held before.\<close>
theorem failed_proposal_clears_block:
  assumes st: "fsm_current m = sAcceptPropose"
    and ty: "evt_t p = eProposeBlock"
    and bl: "evt_block p = Some blk"
    and cp: "calcProposer e (ctx (set_round (\<lambda>r. r \<lparr> round_block := None \<rparr>) m)) (blk_height blk)
               (epoch_delegates (ctx_epoch (ctx m))) = Inr proposer"
    and nv: "\<not> fst (validateProposeBlock e (set_round (\<lambda>r. r \<lparr> round_block := None \<rparr>) m) blk proposer)"
  shows "fst (Handle e (ProposeBlkEvt p) m) = Return None
    \<and> fsm_current (snd (Handle e (ProposeBlkEvt p) m)) = sAcceptPropose
    \<and> round_block (ctx_round (ctx (snd (Handle e (ProposeBlkEvt p) m)))) = None"
proof -
  let ?m1 = "set_round (\<lambda>r. r \<lparr> round_block := None \<rparr>) m"
  obtain ok m2 where v: "validateProposeBlock e ?m1 blk proposer = (ok, m2)"
    by (cases "validateProposeBlock e ?m1 blk proposer")
  from nv v have ok: "ok = False" by simp
  from validateProposeBlock_frame [of e ?m1 blk proposer] v
  have fr: "fsm_current m2 = fsm_current ?m1" "ctx m2 = ctx ?m1" by simp_all
  have ep: "epoch_delegates (ctx_epoch (ctx ?m1)) = epoch_delegates (ctx_epoch (ctx m))"
    by (simp add: set_round_def)
  have h: "handleProposeBlockEvt e (ProposeBlkEvt p) m = (Return (sAcceptPropose, None), m2)"
    using ty bl cp v ok by (simp add: handleProposeBlockEvt_def Let_def ep)
  show ?thesis
    using st ty h fr by (simp add: Handle_def edge_AcceptPropose_ProposeBlock set_round_def)
qed


theorem failed_proposal_clears_block_witness:
  "fsm_current holding_fsm = sAcceptPropose
   \<and> round_block (ctx_round (ctx holding_fsm)) = Some stub_block
   \<and> fst (Handle stub_env (ProposeBlkEvt bad_propose_evt) holding_fsm) = Return None
   \<and> fsm_current (snd (Handle stub_env (ProposeBlkEvt bad_propose_evt) holding_fsm))
       = sAcceptPropose
   \<and> round_block (ctx_round (ctx (snd (Handle stub_env (ProposeBlkEvt bad_propose_evt)
                                          holding_fsm)))) = None"
proof -
  let ?blk = "stub_block \<lparr> blk_height := 8 \<rparr>"
  have st: "fsm_current holding_fsm = sAcceptPropose"
    by (simp add: holding_fsm_def stub_fsm_def)
  have ty: "evt_t bad_propose_evt = eProposeBlock" by (simp add: bad_propose_evt_def)
  have bl: "evt_block bad_propose_evt = Some ?blk" by (simp add: bad_propose_evt_def)
  have cp: "calcProposer stub_env (ctx (set_round (\<lambda>r. r \<lparr> round_block := None \<rparr>) holding_fsm))
      (blk_height ?blk) (epoch_delegates (ctx_epoch (ctx holding_fsm))) = Inr ''io1alice''"
    by (simp add: stub_env_def)
  have nv: "\<not> fst (validateProposeBlock stub_env
      (set_round (\<lambda>r. r \<lparr> round_block := None \<rparr>) holding_fsm) ?blk ''io1alice'')"
    by (simp add: validateProposeBlock_verdict propose_checks_def set_round_def
        holding_fsm_def stub_fsm_def stub_round_def stub_block_def)
  have rb: "round_block (ctx_round (ctx holding_fsm)) = Some stub_block"
    by (simp add: holding_fsm_def)
  show ?thesis
    using st rb failed_proposal_clears_block [OF st ty bl cp nv] by simp
qed

lemma evtq_room_mono: "evtq_room 2 m \<Longrightarrow> evtq_room 1 m"
  by (simp add: evtq_room_def)

lemma validateProposeBlock_passes:
  assumes "propose_checks e m blk proposer"
  shows "validateProposeBlock e (set_round (\<lambda>r. r \<lparr> round_block := None \<rparr>) m) blk proposer
    = (True, set_round (\<lambda>r. r \<lparr> round_block := None \<rparr>) m)"
  using validateProposeBlock_verdict
      [of e "set_round (\<lambda>r. r \<lparr> round_block := None \<rparr>) m" blk proposer]
    validateProposeBlock_accepting
      [of e "set_round (\<lambda>r. r \<lparr> round_block := None \<rparr>) m" blk proposer] assms
  by (cases "validateProposeBlock e (set_round (\<lambda>r. r \<lparr> round_block := None \<rparr>) m) blk proposer")
     (simp add: propose_checks_cleared)

lemma Handle_propose_unsigned:
  assumes st: "fsm_current m = sAcceptPropose"
    and ty: "evt_t p = eProposeBlock"
    and bl: "evt_block p = Some blk"
    and cp: "calcProposer e (ctx (set_round (\<lambda>r. r \<lparr> round_block := None \<rparr>) m)) (blk_height blk)
               (epoch_delegates (ctx_epoch (ctx m))) = Inr proposer"
    and ck: "propose_checks e m blk proposer"
    and zero: "PrivateKey (ctx_addr (ctx m)) = ZeroPrivateKey (cr e)"
  shows "Handle e (ProposeBlkEvt p) m =
    (Return (Some ErrPrivateKeyEmpty),
     logf Error ''failed to sign endorse for block''
       (set_round (\<lambda>r. r \<lparr> round_block := Some blk \<rparr>) m))"
proof -
  let ?m1 = "set_round (\<lambda>r. r \<lparr> round_block := None \<rparr>) m"
  let ?m3 = "set_round (\<lambda>r. r \<lparr> round_block := Some blk \<rparr>) ?m1"
  have m3: "?m3 = set_round (\<lambda>r. r \<lparr> round_block := Some blk \<rparr>) m"
    by (simp add: set_round_def)
  have edge: "map_of transition_table (fsm_current m, Type (ProposeBlkEvt p))
      = Some (handleProposeBlockEvt, [sAcceptPropose, sAcceptProposalEndorse])"
    using st ty by (simp add: edge_AcceptPropose_ProposeBlock)
  have ep: "epoch_delegates (ctx_epoch (ctx ?m1)) = epoch_delegates (ctx_epoch (ctx m))"
    by (simp add: set_round_def)
  have "handleProposeBlockEvt e (ProposeBlkEvt p) m
      = (Return (sInvalid, Some ErrPrivateKeyEmpty),
         logf Error ''failed to sign endorse for block'' ?m3)"
    using ty bl cp validateProposeBlock_passes [OF ck] zero
    by (simp add: handleProposeBlockEvt_def Let_def ep newEndorseProposalEvt_def
        newEndorseEvt_def Sign_def set_round_def)
  from Handle_err [OF edge this] show ?thesis by (simp add: m3)
qed

lemma Handle_propose_blocked:
  assumes st: "fsm_current m = sAcceptPropose"
    and ty: "evt_t p = eProposeBlock"
    and bl: "evt_block p = Some blk"
    and cp: "calcProposer e (ctx (set_round (\<lambda>r. r \<lparr> round_block := None \<rparr>) m)) (blk_height blk)
               (epoch_delegates (ctx_epoch (ctx m))) = Inr proposer"
    and ck: "propose_checks e m blk proposer"
    and nonzero: "PrivateKey (ctx_addr (ctx m)) \<noteq> ZeroPrivateKey (cr e)"
    and noroom: "\<not> evtq_room 1 m"
  shows "Handle e (ProposeBlkEvt p) m =
    (Blocked, set_round (\<lambda>r. r \<lparr> round_block := Some blk \<rparr>) m)"
proof -
  let ?m1 = "set_round (\<lambda>r. r \<lparr> round_block := None \<rparr>) m"
  let ?m3 = "set_round (\<lambda>r. r \<lparr> round_block := Some blk \<rparr>) ?m1"
  have m3: "?m3 = set_round (\<lambda>r. r \<lparr> round_block := Some blk \<rparr>) m"
    by (simp add: set_round_def)
  have edge: "map_of transition_table (fsm_current m, Type (ProposeBlkEvt p))
      = Some (handleProposeBlockEvt, [sAcceptPropose, sAcceptProposalEndorse])"
    using st ty by (simp add: edge_AcceptPropose_ProposeBlock)
  have ep: "epoch_delegates (ctx_epoch (ctx ?m1)) = epoch_delegates (ctx_epoch (ctx m))"
    by (simp add: set_round_def)
  have "handleProposeBlockEvt e (ProposeBlkEvt p) m = (Blocked, ?m3)"
    using ty bl cp validateProposeBlock_passes [OF ck] nonzero noroom
    by (simp add: handleProposeBlockEvt_def Let_def ep newEndorseProposalEvt_def
        newEndorseEvt_def Sign_def set_round_def produce_then_def produce_def
        evtq_room_def evtq_cap_def)
  then show ?thesis
    using edge by (simp add: Handle_def m3)
qed

text \<open>Claim C1, as the code has it. In \<open>sAcceptPropose\<close>, a proposed block is accepted
  (the step succeeds, the block is stored as the block of the round, the node's
  endorsement is broadcast and sent to itself, and the machine moves to
  \<open>sAcceptProposalEndorse\<close>) if and only if the proposer expected for the block's height
  can be computed, the conditions (1) to (5) of the specification hold against it, where
  a block produced by the local node passes after (1) to (3), the local node's private
  key is not the zero key, so that the endorsement can be signed, and the event channel
  has room for what the worker sends to itself: one free slot for the endorsement, and a
  second one for the timeout of the next phase when \<open>AcceptProposalEndorseTTL\<close> is not
  positive. When the conditions hold and the private key is the zero key, the handler
  returns the signing error and the machine stays in \<open>sAcceptPropose\<close> with the block
  stored. When the conditions hold, the key is not the zero key and the channel lacks
  that room, the worker is blocked in a send and the machine stays in \<open>sAcceptPropose\<close>
  with the block stored.\<close>
theorem proposal_accepted_iff:
  assumes st: "fsm_current m = sAcceptPropose"
    and ty: "evt_t p = eProposeBlock"
    and bl: "evt_block p = Some blk"
  shows "(proposal_accepted e m blk (Handle e (ProposeBlkEvt p) m) \<longleftrightarrow>
      (\<exists>proposer.
          calcProposer e (ctx (set_round (\<lambda>r. r \<lparr> round_block := None \<rparr>) m)) (blk_height blk)
            (epoch_delegates (ctx_epoch (ctx m))) = Inr proposer
        \<and> propose_checks e m blk proposer)
      \<and> PrivateKey (ctx_addr (ctx m)) \<noteq> ZeroPrivateKey (cr e)
      \<and> evtq_room (if 0 < AcceptProposalEndorseTTL (ctx_cfg (ctx m)) then 1 else 2) m)
    \<and> ((\<exists>proposer.
          calcProposer e (ctx (set_round (\<lambda>r. r \<lparr> round_block := None \<rparr>) m)) (blk_height blk)
            (epoch_delegates (ctx_epoch (ctx m))) = Inr proposer
        \<and> propose_checks e m blk proposer)
       \<and> PrivateKey (ctx_addr (ctx m)) = ZeroPrivateKey (cr e) \<longrightarrow>
         fst (Handle e (ProposeBlkEvt p) m) = Return (Some ErrPrivateKeyEmpty)
       \<and> fsm_current (snd (Handle e (ProposeBlkEvt p) m)) = sAcceptPropose
       \<and> round_block (ctx_round (ctx (snd (Handle e (ProposeBlkEvt p) m)))) = Some blk)
    \<and> ((\<exists>proposer.
          calcProposer e (ctx (set_round (\<lambda>r. r \<lparr> round_block := None \<rparr>) m)) (blk_height blk)
            (epoch_delegates (ctx_epoch (ctx m))) = Inr proposer
        \<and> propose_checks e m blk proposer)
       \<and> PrivateKey (ctx_addr (ctx m)) \<noteq> ZeroPrivateKey (cr e)
       \<and> \<not> evtq_room (if 0 < AcceptProposalEndorseTTL (ctx_cfg (ctx m)) then 1 else 2) m \<longrightarrow>
         fst (Handle e (ProposeBlkEvt p) m) = Blocked
       \<and> fsm_current (snd (Handle e (ProposeBlkEvt p) m)) = sAcceptPropose
       \<and> round_block (ctx_round (ctx (snd (Handle e (ProposeBlkEvt p) m)))) = Some blk)"
proof -
  let ?m1 = "set_round (\<lambda>r. r \<lparr> round_block := None \<rparr>) m"
  let ?evt = "ProposeBlkEvt p"
  have edge: "map_of transition_table (fsm_current m, Type ?evt)
      = Some (handleProposeBlockEvt, [sAcceptPropose, sAcceptProposalEndorse])"
    using st ty by (simp add: edge_AcceptPropose_ProposeBlock)
  have ep: "epoch_delegates (ctx_epoch (ctx ?m1)) = epoch_delegates (ctx_epoch (ctx m))"
    by (simp add: set_round_def)
  show ?thesis
  proof (cases "calcProposer e (ctx ?m1) (blk_height blk) (epoch_delegates (ctx_epoch (ctx m)))")
    case (Inl err)
    then have "handleProposeBlockEvt e ?evt m = (Return (sInvalid, Some err), ?m1)"
      using ty bl by (simp add: handleProposeBlockEvt_def Let_def ep)
    from Handle_err [OF edge this] Inl show ?thesis
      by (simp add: proposal_accepted_def)
  next
    case (Inr proposer)
    obtain ok m2 where v: "validateProposeBlock e ?m1 blk proposer = (ok, m2)"
      by (cases "validateProposeBlock e ?m1 blk proposer")
    have okc: "ok = propose_checks e m blk proposer"
      using validateProposeBlock_verdict [of e ?m1 blk proposer] v
      by (simp add: propose_checks_cleared)
    show ?thesis
    proof (cases ok)
      case False
      then have "handleProposeBlockEvt e ?evt m = (Return (sAcceptPropose, None), m2)"
        using ty bl Inr v by (simp add: handleProposeBlockEvt_def Let_def ep)
      from Handle_ok [OF edge this] False okc Inr show ?thesis
        by (simp add: proposal_accepted_def)
    next
      case True
      then have m2: "m2 = ?m1"
        using validateProposeBlock_accepting [of e ?m1 blk proposer] v by simp
      let ?m3 = "set_round (\<lambda>r. r \<lparr> round_block := Some blk \<rparr>) ?m1"
      have fc3: "fsm_current ?m3 = sAcceptPropose" using st by (simp add: set_round_def)
      have rb3: "round_block (ctx_round (ctx ?m3)) = Some blk" by (simp add: set_round_def)
      have q3: "evtq ?m3 = evtq m" by (simp add: set_round_def)
      have cap3: "evtq_cap ?m3 = evtq_cap m" by (simp add: set_round_def evtq_cap_def)
      show ?thesis
      proof (cases "PrivateKey (ctx_addr (ctx m)) = ZeroPrivateKey (cr e)")
        case zero: True
        have "handleProposeBlockEvt e ?evt m
            = (Return (sInvalid, Some ErrPrivateKeyEmpty),
               logf Error ''failed to sign endorse for block'' ?m3)"
          using ty bl Inr v True m2 zero
          by (simp add: handleProposeBlockEvt_def Let_def ep newEndorseProposalEvt_def
              newEndorseEvt_def Sign_def set_round_def)
        from Handle_err [OF edge this] zero st show ?thesis
          by (simp add: proposal_accepted_def logf_def set_round_def)
      next
        case nonzero: False
        let ?ev = "\<lparr> evt_t = eEndorseProposal, evt_ts = now e,
                      evt_endorse = own_proposal_endorse e m blk \<rparr>"
        let ?pb = "MsgEndorse (endorse_toProtoMsg (own_proposal_endorse e m blk))"
        have ne: "newEndorseProposalEvt e (HashBlock e blk) True ?m3 = (Inr ?ev, ?m3)"
          using nonzero
          by (simp add: newEndorseProposalEvt_def newEndorseEvt_def Sign_def set_round_def
              Let_def newEndorseEvtWithEndorse_def own_proposal_endorse_def endorseProposal_def)
        have h: "handleProposeBlockEvt e ?evt m
            = produce_then (EndorseEvt ?ev) 0 ?m3
                (\<lambda>m. moveToAcceptProposalEndorse e
                        (broadcast e ?pb ''error when broadcasting endorseEvtProto'' m))"
          using ty bl Inr v True m2 ne
          by (simp add: handleProposeBlockEvt_def Let_def ep endorseEvt_toProtoMsg_def)
        have pre: "(\<exists>proposer.
            calcProposer e (ctx ?m1) (blk_height blk) (epoch_delegates (ctx_epoch (ctx m)))
              = Inr proposer \<and> propose_checks e m blk proposer)"
          using Inr okc True by simp
        show ?thesis
        proof (cases "evtq_room 1 m")
          case noroom: False
          then have "produce (EndorseEvt ?ev) 0 ?m3 = None"
            by (simp add: produce_def evtq_room_def q3 cap3)
          then have "handleProposeBlockEvt e ?evt m = (Blocked, ?m3)"
            using h by (simp add: produce_then_def)
          then have H: "Handle e ?evt m = (Blocked, ?m3)"
            using edge by (simp add: Handle_def)
          have nr: "\<not> evtq_room (if 0 < AcceptProposalEndorseTTL (ctx_cfg (ctx m)) then 1 else 2) m"
            using noroom evtq_room_mono by auto
          show ?thesis
            using H nr fc3 rb3 nonzero pre by (simp add: proposal_accepted_def)
        next
          case room: True
          let ?m4 = "broadcast e ?pb ''error when broadcasting endorseEvtProto''
                       (?m3 \<lparr> evtq := evtq ?m3 @ [EndorseEvt ?ev] \<rparr>)"
          have p1: "produce (EndorseEvt ?ev) 0 ?m3 = Some (?m3 \<lparr> evtq := evtq ?m3 @ [EndorseEvt ?ev] \<rparr>)"
            using room by (simp add: produce_def evtq_room_def q3 cap3)
          have h2: "handleProposeBlockEvt e ?evt m = moveToAcceptProposalEndorse e ?m4"
            using h p1 by (simp add: produce_then_def)
          have fc4: "fsm_current ?m4 = sAcceptPropose"
            using st by (simp add: broadcast_def logf_def set_round_def Let_def split: option.splits)
          have rb4: "round_block (ctx_round (ctx ?m4)) = Some blk"
            by (simp add: broadcast_def logf_def set_round_def Let_def split: option.splits)
          have q4: "evtq ?m4 = evtq m @ [EndorseEvt ?ev]"
            by (simp add: broadcast_def logf_def set_round_def Let_def split: option.splits)
          have t4: "timers ?m4 = timers m"
            by (simp add: broadcast_def logf_def set_round_def Let_def split: option.splits)
          have cap4: "evtq_cap ?m4 = evtq_cap m"
            by (simp add: broadcast_def logf_def set_round_def evtq_cap_def Let_def
                split: option.splits)
          have cfg4: "AcceptProposalEndorseTTL (ctx_cfg (ctx ?m4)) = AcceptProposalEndorseTTL (ctx_cfg (ctx m))"
            by (simp add: broadcast_def logf_def set_round_def Let_def split: option.splits)
          have sm4: "sent_msgs (out ?m4) = sent_msgs (out m) @ [?pb]"
            by (simp add: broadcast_def logf_def set_round_def Let_def sent_msgs_append
                split: option.splits)
          let ?to = "TimeoutEvt (newTimeoutEvt e eEndorseProposalTimeout
                              (round_height (ctx_round (ctx ?m4))))"
          let ?ttl = "AcceptProposalEndorseTTL (ctx_cfg (ctx m))"
          have mv: "moveToAcceptProposalEndorse e ?m4
              = produce_then ?to ?ttl ?m4 (\<lambda>m. (Return (sAcceptProposalEndorse, None), m))"
            by (simp add: moveToAcceptProposalEndorse_def cfg4)
          show ?thesis
          proof (cases "0 < ?ttl \<or> evtq_room 2 m")
            case go: True
            then obtain m5 where p2: "produce ?to ?ttl ?m4 = Some m5"
              and fr5: "ctx m5 = ctx ?m4" "out m5 = out ?m4"
                "set (drop (length (evtq m)) (evtq ?m4)) \<subseteq> set (drop (length (evtq m)) (evtq m5))"
              by (cases "0 < ?ttl") (auto simp add: produce_def evtq_room_def q4 cap4)
            have "handleProposeBlockEvt e ?evt m = (Return (sAcceptProposalEndorse, None), m5)"
              using h2 mv p2 by (simp add: produce_then_def)
            from Handle_ok [OF edge this]
            have H: "Handle e ?evt m = (Return None, m5 \<lparr> fsm_current := sAcceptProposalEndorse \<rparr>)"
              by simp
            have rm: "evtq_room (if 0 < ?ttl then 1 else 2) m"
              using go room by auto
            have inq: "EndorseEvt ?ev \<in> set (drop (length (evtq m)) (evtq m5))"
              using fr5(3) by (simp add: q4)
            show ?thesis
              using H rm nonzero pre fr5 rb4 sm4 inq by (simp add: proposal_accepted_def)
          next
            case stop: False
            then have "produce ?to ?ttl ?m4 = None"
              by (simp add: produce_def evtq_room_def q4 cap4)
            then have "handleProposeBlockEvt e ?evt m = (Blocked, ?m4)"
              using h2 mv by (simp add: produce_then_def)
            then have H: "Handle e ?evt m = (Blocked, ?m4)"
              using edge by (simp add: Handle_def)
            have nr: "\<not> evtq_room (if 0 < ?ttl then 1 else 2) m"
              using stop by auto
            show ?thesis
              using H nr fc4 rb4 nonzero pre by (simp add: proposal_accepted_def)
          qed
        qed
      qed
    qed
  qed
qed


theorem proposal_accepted_iff_witness:
  "fsm_current (stub_fsm sAcceptPropose) = sAcceptPropose
   \<and> evt_t stub_propose_evt = eProposeBlock
   \<and> evt_block stub_propose_evt = Some stub_block
   \<and> proposal_accepted stub_env (stub_fsm sAcceptPropose) stub_block
       (Handle stub_env (ProposeBlkEvt stub_propose_evt) (stub_fsm sAcceptPropose))
   \<and> PrivateKey (ctx_addr (ctx (keyless_fsm sAcceptPropose))) = ZeroPrivateKey (cr stub_env)
   \<and> fst (Handle stub_env (ProposeBlkEvt stub_propose_evt) (keyless_fsm sAcceptPropose))
       = Return (Some ErrPrivateKeyEmpty)
   \<and> round_block (ctx_round (ctx (snd (Handle stub_env (ProposeBlkEvt stub_propose_evt)
                                          (keyless_fsm sAcceptPropose))))) = Some stub_block
   \<and> \<not> evtq_room 1 (full_fsm sAcceptPropose)
   \<and> fst (Handle stub_env (ProposeBlkEvt stub_propose_evt) (full_fsm sAcceptPropose)) = Blocked
   \<and> fsm_current (snd (Handle stub_env (ProposeBlkEvt stub_propose_evt)
                          (full_fsm sAcceptPropose))) = sAcceptPropose"
proof -
  have ty: "evt_t stub_propose_evt = eProposeBlock" by (simp add: stub_propose_evt_def)
  have bl: "evt_block stub_propose_evt = Some stub_block" by (simp add: stub_propose_evt_def)
  have st1: "fsm_current (stub_fsm sAcceptPropose) = sAcceptPropose" by (simp add: stub_fsm_def)
  have st2: "fsm_current (keyless_fsm sAcceptPropose) = sAcceptPropose"
    by (simp add: keyless_fsm_def stub_fsm_def)
  have st3: "fsm_current (full_fsm sAcceptPropose) = sAcceptPropose"
    by (simp add: full_fsm_def stub_fsm_def)
  have cp: "calcProposer stub_env c h ds = Inr ''io1alice''" for c h ds
    by (simp add: stub_env_def)
  have ck1: "propose_checks stub_env (stub_fsm sAcceptPropose) stub_block ''io1alice''"
    by (simp add: propose_checks_def stub_env_def stub_fsm_def stub_round_def stub_block_def
        stub_crypto_def stub_addr_def)
  have ck2: "propose_checks stub_env (keyless_fsm sAcceptPropose) stub_block ''io1alice''"
    by (simp add: propose_checks_def stub_env_def keyless_fsm_def stub_fsm_def stub_round_def
        stub_block_def stub_crypto_def stub_addr_def)
  have ck3: "propose_checks stub_env (full_fsm sAcceptPropose) stub_block ''io1alice''"
    by (simp add: propose_checks_def stub_env_def full_fsm_def stub_fsm_def stub_round_def
        stub_block_def stub_crypto_def stub_addr_def)
  have pk1: "PrivateKey (ctx_addr (ctx (stub_fsm sAcceptPropose))) \<noteq> ZeroPrivateKey (cr stub_env)"
    by (simp add: stub_fsm_def stub_addr_def stub_env_def stub_crypto_def)
  have pk2: "PrivateKey (ctx_addr (ctx (keyless_fsm sAcceptPropose))) = ZeroPrivateKey (cr stub_env)"
    by (simp add: keyless_fsm_def stub_fsm_def stub_addr_def stub_env_def stub_crypto_def)
  have pk3: "PrivateKey (ctx_addr (ctx (full_fsm sAcceptPropose))) \<noteq> ZeroPrivateKey (cr stub_env)"
    by (simp add: full_fsm_def stub_fsm_def stub_addr_def stub_env_def stub_crypto_def)
  have rm1: "evtq_room 1 (stub_fsm sAcceptPropose)"
    "0 < AcceptProposalEndorseTTL (ctx_cfg (ctx (stub_fsm sAcceptPropose)))"
    by (simp_all add: evtq_room_def evtq_cap_def stub_fsm_def DefaultRollDPoS_def)
  have rm3: "\<not> evtq_room 1 (full_fsm sAcceptPropose)"
    "0 < AcceptProposalEndorseTTL (ctx_cfg (ctx (full_fsm sAcceptPropose)))"
    by (simp_all add: evtq_room_def evtq_cap_def full_fsm_def stub_fsm_def DefaultRollDPoS_def)
  note t1 = proposal_accepted_iff [OF st1 ty bl, of stub_env]
  note t2 = proposal_accepted_iff [OF st2 ty bl, of stub_env]
  note t3 = proposal_accepted_iff [OF st3 ty bl, of stub_env]
  have a: "proposal_accepted stub_env (stub_fsm sAcceptPropose) stub_block
       (Handle stub_env (ProposeBlkEvt stub_propose_evt) (stub_fsm sAcceptPropose))"
    using t1 cp ck1 pk1 rm1 by simp
  have b: "fst (Handle stub_env (ProposeBlkEvt stub_propose_evt) (keyless_fsm sAcceptPropose))
       = Return (Some ErrPrivateKeyEmpty)
     \<and> round_block (ctx_round (ctx (snd (Handle stub_env (ProposeBlkEvt stub_propose_evt)
                                          (keyless_fsm sAcceptPropose))))) = Some stub_block"
    using t2 cp ck2 pk2 by simp
  have c: "fst (Handle stub_env (ProposeBlkEvt stub_propose_evt) (full_fsm sAcceptPropose)) = Blocked
     \<and> fsm_current (snd (Handle stub_env (ProposeBlkEvt stub_propose_evt)
                          (full_fsm sAcceptPropose))) = sAcceptPropose"
    using t3 cp ck3 pk3 rm3 by simp
  show ?thesis using st1 ty bl a pk2 b rm3(1) c by simp
qed

text \<open>Claim C1 as stated fails in two ways, each with a block that meets all of the
  conditions (1) to (5). On a node whose private key is the zero key, signing the
  endorsement fails: the handler returns that error and the machine stays in
  \<open>sAcceptPropose\<close> with the block stored but not endorsed. On a machine whose channel is
  full, the worker blocks in sending itself the endorsement, and the machine stays in
  \<open>sAcceptPropose\<close>.\<close>
theorem proposal_accepted_counterexample:
  "propose_checks stub_env (keyless_fsm sAcceptPropose) stub_block ''io1alice''
   \<and> calcProposer stub_env
       (ctx (set_round (\<lambda>r. r \<lparr> round_block := None \<rparr>) (keyless_fsm sAcceptPropose)))
       (blk_height stub_block) (epoch_delegates (ctx_epoch (ctx (keyless_fsm sAcceptPropose))))
       = Inr ''io1alice''
   \<and> Handle stub_env (ProposeBlkEvt stub_propose_evt) (keyless_fsm sAcceptPropose)
       = (Return (Some ErrPrivateKeyEmpty),
          (keyless_fsm sAcceptPropose)
            \<lparr> ctx := (ctx (keyless_fsm sAcceptPropose))
                       \<lparr> ctx_round := stub_round \<lparr> round_block := Some stub_block \<rparr> \<rparr>,
              out := [Log Error ''failed to sign endorse for block''] \<rparr>)
   \<and> fsm_current (keyless_fsm sAcceptPropose) = sAcceptPropose
   \<and> \<not> proposal_accepted stub_env (keyless_fsm sAcceptPropose) stub_block
         (Handle stub_env (ProposeBlkEvt stub_propose_evt) (keyless_fsm sAcceptPropose))
   \<and> propose_checks stub_env (full_fsm sAcceptPropose) stub_block ''io1alice''
   \<and> calcProposer stub_env
       (ctx (set_round (\<lambda>r. r \<lparr> round_block := None \<rparr>) (full_fsm sAcceptPropose)))
       (blk_height stub_block) (epoch_delegates (ctx_epoch (ctx (full_fsm sAcceptPropose))))
       = Inr ''io1alice''
   \<and> PrivateKey (ctx_addr (ctx (full_fsm sAcceptPropose))) = [2]
   \<and> ZeroPrivateKey (cr stub_env) = [0]
   \<and> Handle stub_env (ProposeBlkEvt stub_propose_evt) (full_fsm sAcceptPropose)
       = (Blocked,
          (full_fsm sAcceptPropose)
            \<lparr> ctx := (ctx (full_fsm sAcceptPropose))
                       \<lparr> ctx_round := stub_round \<lparr> round_block := Some stub_block \<rparr> \<rparr> \<rparr>)
   \<and> fsm_current (full_fsm sAcceptPropose) = sAcceptPropose
   \<and> \<not> proposal_accepted stub_env (full_fsm sAcceptPropose) stub_block
         (Handle stub_env (ProposeBlkEvt stub_propose_evt) (full_fsm sAcceptPropose))"
proof -
  let ?evt = "ProposeBlkEvt stub_propose_evt"
  have ty: "evt_t stub_propose_evt = eProposeBlock" by (simp add: stub_propose_evt_def)
  have bl: "evt_block stub_propose_evt = Some stub_block" by (simp add: stub_propose_evt_def)
  have ck2: "propose_checks stub_env (keyless_fsm sAcceptPropose) stub_block ''io1alice''"
    by (simp add: propose_checks_def stub_env_def keyless_fsm_def stub_fsm_def stub_round_def
        stub_block_def stub_crypto_def stub_addr_def)
  have ck3: "propose_checks stub_env (full_fsm sAcceptPropose) stub_block ''io1alice''"
    by (simp add: propose_checks_def stub_env_def full_fsm_def stub_fsm_def stub_round_def
        stub_block_def stub_crypto_def stub_addr_def)
  have cp: "calcProposer stub_env c h ds = Inr ''io1alice''" for c h ds
    by (simp add: stub_env_def)
  have st2: "fsm_current (keyless_fsm sAcceptPropose) = sAcceptPropose"
    by (simp add: keyless_fsm_def stub_fsm_def)
  have st3: "fsm_current (full_fsm sAcceptPropose) = sAcceptPropose"
    by (simp add: full_fsm_def stub_fsm_def)
  have pk2: "PrivateKey (ctx_addr (ctx (keyless_fsm sAcceptPropose))) = ZeroPrivateKey (cr stub_env)"
    by (simp add: keyless_fsm_def stub_fsm_def stub_addr_def stub_env_def stub_crypto_def)
  have k3: "PrivateKey (ctx_addr (ctx (full_fsm sAcceptPropose))) = [2]
      \<and> ZeroPrivateKey (cr stub_env) = [0]"
    by (simp add: full_fsm_def stub_fsm_def stub_addr_def stub_env_def stub_crypto_def)
  have rm3: "\<not> evtq_room 1 (full_fsm sAcceptPropose)"
    by (simp add: evtq_room_def evtq_cap_def full_fsm_def stub_fsm_def DefaultRollDPoS_def)
  have pk3: "PrivateKey (ctx_addr (ctx (full_fsm sAcceptPropose))) \<noteq> ZeroPrivateKey (cr stub_env)"
    using k3 by simp
  have H2: "Handle stub_env ?evt (keyless_fsm sAcceptPropose)
       = (Return (Some ErrPrivateKeyEmpty),
          (keyless_fsm sAcceptPropose)
            \<lparr> ctx := (ctx (keyless_fsm sAcceptPropose))
                       \<lparr> ctx_round := stub_round \<lparr> round_block := Some stub_block \<rparr> \<rparr>,
              out := [Log Error ''failed to sign endorse for block''] \<rparr>)"
    unfolding Handle_propose_unsigned [OF st2 ty bl cp ck2 pk2]
    by (simp add: set_round_def logf_def keyless_fsm_def stub_fsm_def)
  have H3: "Handle stub_env ?evt (full_fsm sAcceptPropose)
       = (Blocked,
          (full_fsm sAcceptPropose)
            \<lparr> ctx := (ctx (full_fsm sAcceptPropose))
                       \<lparr> ctx_round := stub_round \<lparr> round_block := Some stub_block \<rparr> \<rparr> \<rparr>)"
    unfolding Handle_propose_blocked [OF st3 ty bl cp ck3 pk3 rm3]
    by (simp add: set_round_def full_fsm_def stub_fsm_def)
  show ?thesis
    unfolding H2 H3 using ck2 ck3 cp st2 st3 k3 by (simp add: proposal_accepted_def)
qed

section \<open>Properties of the commit phase\<close>

lemma edge_AcceptCommitEndorse_Timeout:
  "map_of transition_table (sAcceptCommitEndorse, eEndorseCommitTimeout)
    = Some (handleEndorseCommitTimeout, [sRoundStart])"
  by (simp add: transition_table_def)

lemma edge_AcceptCommitEndorse_EndorseCommit:
  "map_of transition_table (sAcceptCommitEndorse, eEndorseCommit)
    = Some (handleEndorseCommitEvt, [sAcceptCommitEndorse, sRoundStart])"
  by (simp add: transition_table_def)

lemma committed_blocks_append:
  "committed_blocks (xs @ ys) = committed_blocks xs @ committed_blocks ys"
  by (induction xs rule: committed_blocks.induct) auto

lemma commitPendingBlock_frame:
  "fsm_current (commitPendingBlock e blk m) = fsm_current m
   \<and> ctx (commitPendingBlock e blk m) = ctx m
   \<and> evtq (commitPendingBlock e blk m) = evtq m
   \<and> timers (commitPendingBlock e blk m) = timers m
   \<and> committed_blocks (out (commitPendingBlock e blk m)) = committed_blocks (out m) @ [blk]"
  by (simp add: commitPendingBlock_def Let_def logf_def broadcast_def committed_blocks_append
      split: option.splits)

lemma processEndorseCommit_fst:
  "fst (processEndorseCommit e b m)
    = (if evtq_room 1 m then Return (sRoundStart, None) else Blocked)"
  by (simp add: processEndorseCommit_def Let_def logf_def produce_then_def produce_def
      evtq_room_def evtq_cap_def commitPendingBlock_frame split: option.splits prod.splits)

lemma processEndorseCommit_ctx: "ctx (snd (processEndorseCommit e b m)) = ctx m"
  by (simp add: processEndorseCommit_def Let_def logf_def produce_then_def produce_def
      evtq_cap_def commitPendingBlock_frame split: option.splits prod.splits)

lemma processEndorseCommit_fsm_current:
  "fsm_current (snd (processEndorseCommit e b m)) = fsm_current m"
  by (simp add: processEndorseCommit_def Let_def logf_def produce_then_def produce_def
      evtq_cap_def commitPendingBlock_frame split: option.splits prod.splits)

lemma processEndorseCommit_evtq:
  "evtq (snd (processEndorseCommit e b m))
    = (if evtq_room 1 m
       then evtq m @ [ConsensusEvt \<lparr> evt_t = eFinishEpoch, evt_ts = now e \<rparr>]
       else evtq m)"
  by (simp add: processEndorseCommit_def Let_def logf_def produce_then_def produce_def
      evtq_room_def evtq_cap_def newCEvt_def commitPendingBlock_frame
      split: option.splits prod.splits)

lemma processEndorseCommit_no_consensus:
  "committed_blocks (out (snd (processEndorseCommit e False m)))
    = committed_blocks (out m)
      @ (if EnableDummyBlock (ctx_cfg (ctx m)) then [MintNewDummyBlock e] else [])"
  by (simp add: processEndorseCommit_def Let_def logf_def produce_then_def produce_def
      evtq_cap_def commitPendingBlock_frame committed_blocks_append split: option.splits)

lemma Handle_returned:
  "map_of transition_table (fsm_current m, Type evt) = Some (h, dsts) \<Longrightarrow>
   fst (h e evt m) = Return (dst, None) \<Longrightarrow> dst \<in> set dsts \<Longrightarrow>
   Handle e evt m = (Return None, (snd (h e evt m)) \<lparr> fsm_current := dst \<rparr>)"
  by (cases "h e evt m") (simp add: Handle_def)

lemma Handle_blocked:
  "map_of transition_table (fsm_current m, Type evt) = Some (h, dsts) \<Longrightarrow>
   fst (h e evt m) = Blocked \<Longrightarrow> Handle e evt m = (Blocked, snd (h e evt m))"
  by (cases "h e evt m") (simp add: Handle_def)

lemma agreement_failure_step:
  assumes edge: "map_of transition_table (fsm_current m, Type evt) = Some (h, [sRoundStart])"
    and h: "h e evt m = processEndorseCommit e False m1"
    and fr: "evtq m1 = evtq m" "ctx_cfg (ctx m1) = ctx_cfg (ctx m)"
      "fsm_current m1 = fsm_current m" "committed_blocks (out m1) = committed_blocks (out m)"
  shows "agreement_failure_outcome e m (Handle e evt m)"
proof -
  have rm: "evtq_room 1 m1 = evtq_room 1 m"
    using fr by (simp add: evtq_room_def evtq_cap_def)
  show ?thesis
  proof (cases "evtq_room 1 m")
    case True
    then have "fst (h e evt m) = Return (sRoundStart, None)"
      using h rm by (simp add: processEndorseCommit_fst)
    from Handle_returned [OF edge this]
    have "Handle e evt m = (Return None, (snd (h e evt m)) \<lparr> fsm_current := sRoundStart \<rparr>)"
      by simp
    then show ?thesis
      using True h rm fr
      by (simp add: agreement_failure_outcome_def processEndorseCommit_evtq
          processEndorseCommit_no_consensus processEndorseCommit_ctx)
  next
    case False
    then have "fst (h e evt m) = Blocked"
      using h rm by (simp add: processEndorseCommit_fst)
    from Handle_blocked [OF edge this]
    have "Handle e evt m = (Blocked, snd (h e evt m))" .
    then show ?thesis
      using False h rm fr
      by (simp add: agreement_failure_outcome_def processEndorseCommit_evtq
          processEndorseCommit_no_consensus processEndorseCommit_fsm_current)
  qed
qed

text \<open>Claim C6, as the code has it. In \<open>sAcceptCommitEndorse\<close>, when the commit timeout is
  handled, or a commit endorsement is handled and the tally that now includes it has a
  quorum of "no": the blocks handed to \<open>CommitBlock\<close> by the step are the dummy block
  minted by the chain when \<open>EnableDummyBlock\<close> is set and none otherwise; then, when the
  event channel has a free slot, the step succeeds, a \<open>FinishEpoch\<close> event is put on the
  channel and the machine moves to \<open>sRoundStart\<close>, and when the channel is full, the
  worker is blocked in sending that event and the machine stays in
  \<open>sAcceptCommitEndorse\<close>. Nothing is assumed of the result of \<open>CommitBlock\<close>: the same
  holds when it returns an error.\<close>
theorem agreement_failure_moves_on:
  assumes st: "fsm_current m = sAcceptCommitEndorse"
  shows "(evt_t c = eEndorseCommitTimeout \<longrightarrow>
            agreement_failure_outcome e m (Handle e (TimeoutEvt c) m))
    \<and> (evt_t n = eEndorseCommit \<and> en_topic (evt_endorse n) = endorseCommit
        \<and> snd (calcQuorum e (ctx (commit_tallied m (evt_endorse n)))
                 (endorses_of (commitEndorses (ctx_round (ctx (commit_tallied m (evt_endorse n)))))
                    (en_blkHash (evt_endorse n)))) \<longrightarrow>
            agreement_failure_outcome e m (Handle e (EndorseEvt n) m))"
proof (intro conjI impI)
  assume ty: "evt_t c = eEndorseCommitTimeout"
  let ?m1 = "logf Warn ''didn't collect enough commit endorse before timeout'' m"
  have h: "handleEndorseCommitTimeout e (TimeoutEvt c) m = processEndorseCommit e False ?m1"
    using ty by (simp add: handleEndorseCommitTimeout_def Let_def)
  have edge: "map_of transition_table (fsm_current m, Type (TimeoutEvt c))
      = Some (handleEndorseCommitTimeout, [sRoundStart])"
    using st ty by (simp add: edge_AcceptCommitEndorse_Timeout)
  show "agreement_failure_outcome e m (Handle e (TimeoutEvt c) m)"
    by (rule agreement_failure_step [OF edge h])
       (simp_all add: logf_def committed_blocks_append)
next
  assume a: "evt_t n = eEndorseCommit \<and> en_topic (evt_endorse n) = endorseCommit
        \<and> snd (calcQuorum e (ctx (commit_tallied m (evt_endorse n)))
                 (endorses_of (commitEndorses (ctx_round (ctx (commit_tallied m (evt_endorse n)))))
                    (en_blkHash (evt_endorse n))))"
  let ?m1 = "commit_tallied m (evt_endorse n)"
  obtain yes no where yn: "calcQuorum e (ctx ?m1)
                 (endorses_of (commitEndorses (ctx_round (ctx ?m1)))
                    (en_blkHash (evt_endorse n))) = (yes, no)"
    by (cases "calcQuorum e (ctx ?m1)
                 (endorses_of (commitEndorses (ctx_round (ctx ?m1)))
                    (en_blkHash (evt_endorse n)))")
  with a have no: "no" by simp
  have h: "handleEndorseCommitEvt e (EndorseEvt n) m = processEndorseCommit e False ?m1"
    using a yn no
    by (simp add: handleEndorseCommitEvt_def Let_def commit_tallied_def)
  have edge0: "map_of transition_table (fsm_current m, Type (EndorseEvt n))
      = Some (handleEndorseCommitEvt, [sAcceptCommitEndorse, sRoundStart])"
    using st a by (simp add: edge_AcceptCommitEndorse_EndorseCommit)
  have fr: "evtq ?m1 = evtq m" "ctx_cfg (ctx ?m1) = ctx_cfg (ctx m)"
      "fsm_current ?m1 = fsm_current m" "committed_blocks (out ?m1) = committed_blocks (out m)"
    by (simp_all add: commit_tallied_def set_round_def)
  have rm: "evtq_room 1 ?m1 = evtq_room 1 m"
    using fr by (simp add: evtq_room_def evtq_cap_def)
  show "agreement_failure_outcome e m (Handle e (EndorseEvt n) m)"
  proof (cases "evtq_room 1 m")
    case True
    then have "fst (handleEndorseCommitEvt e (EndorseEvt n) m) = Return (sRoundStart, None)"
      using h rm by (simp add: processEndorseCommit_fst)
    from Handle_returned [OF edge0 this]
    have "Handle e (EndorseEvt n) m
        = (Return None, (snd (handleEndorseCommitEvt e (EndorseEvt n) m))
                          \<lparr> fsm_current := sRoundStart \<rparr>)"
      by simp
    then show ?thesis
      using True h rm fr
      by (simp add: agreement_failure_outcome_def processEndorseCommit_evtq
          processEndorseCommit_no_consensus processEndorseCommit_ctx)
  next
    case False
    then have "fst (handleEndorseCommitEvt e (EndorseEvt n) m) = Blocked"
      using h rm by (simp add: processEndorseCommit_fst)
    from Handle_blocked [OF edge0 this]
    have "Handle e (EndorseEvt n) m = (Blocked, snd (handleEndorseCommitEvt e (EndorseEvt n) m))" .
    then show ?thesis
      using False h rm fr
      by (simp add: agreement_failure_outcome_def processEndorseCommit_evtq
          processEndorseCommit_no_consensus processEndorseCommit_fsm_current)
  qed
qed

theorem agreement_failure_moves_on_witness:
  "fsm_current (stub_fsm sAcceptCommitEndorse) = sAcceptCommitEndorse
   \<and> evt_t commit_timeout = eEndorseCommitTimeout
   \<and> EnableDummyBlock (ctx_cfg (ctx (stub_fsm sAcceptCommitEndorse)))
   \<and> evtq_room 1 (stub_fsm sAcceptCommitEndorse)
   \<and> CommitBlock no_quorum_env (MintNewDummyBlock no_quorum_env) = Some (ErrExternal ''commit'')
   \<and> agreement_failure_outcome no_quorum_env (stub_fsm sAcceptCommitEndorse)
        (Handle no_quorum_env (TimeoutEvt commit_timeout) (stub_fsm sAcceptCommitEndorse))
   \<and> fsm_current (snd (Handle no_quorum_env (TimeoutEvt commit_timeout)
                          (stub_fsm sAcceptCommitEndorse))) = sRoundStart
   \<and> evt_t far_commit_evt = eEndorseCommit
   \<and> snd (calcQuorum no_quorum_env
             (ctx (commit_tallied (stub_fsm sAcceptCommitEndorse) (evt_endorse far_commit_evt)))
             (endorses_of
                (commitEndorses (ctx_round (ctx (commit_tallied (stub_fsm sAcceptCommitEndorse)
                                                   (evt_endorse far_commit_evt)))))
                (en_blkHash (evt_endorse far_commit_evt))))
   \<and> agreement_failure_outcome no_quorum_env (stub_fsm sAcceptCommitEndorse)
        (Handle no_quorum_env (EndorseEvt far_commit_evt) (stub_fsm sAcceptCommitEndorse))"
proof -
  let ?m = "stub_fsm sAcceptCommitEndorse"
  have st: "fsm_current ?m = sAcceptCommitEndorse" by (simp add: stub_fsm_def)
  have ty: "evt_t commit_timeout = eEndorseCommitTimeout" by (simp add: commit_timeout_def)
  have du: "EnableDummyBlock (ctx_cfg (ctx ?m))" by (simp add: stub_fsm_def DefaultRollDPoS_def)
  have rm: "evtq_room 1 ?m"
    by (simp add: evtq_room_def evtq_cap_def stub_fsm_def DefaultRollDPoS_def)
  have cb: "CommitBlock no_quorum_env (MintNewDummyBlock no_quorum_env)
      = Some (ErrExternal ''commit'')"
    by (simp add: no_quorum_env_def stub_env_def)
  have en: "evt_t far_commit_evt = eEndorseCommit
      \<and> en_topic (evt_endorse far_commit_evt) = endorseCommit
      \<and> snd (calcQuorum no_quorum_env (ctx (commit_tallied ?m (evt_endorse far_commit_evt)))
             (endorses_of
                (commitEndorses (ctx_round (ctx (commit_tallied ?m (evt_endorse far_commit_evt)))))
                (en_blkHash (evt_endorse far_commit_evt))))"
    by (simp add: far_commit_evt_def stub_endorse_def endorseCommit_def no_quorum_env_def)
  note th = agreement_failure_moves_on [OF st, of commit_timeout no_quorum_env far_commit_evt]
  from th ty have a: "agreement_failure_outcome no_quorum_env ?m
      (Handle no_quorum_env (TimeoutEvt commit_timeout) ?m)" by blast
  from th en have b: "agreement_failure_outcome no_quorum_env ?m
      (Handle no_quorum_env (EndorseEvt far_commit_evt) ?m)" by blast
  from a rm have c: "fsm_current (snd (Handle no_quorum_env (TimeoutEvt commit_timeout) ?m))
      = sRoundStart"
    by (simp add: agreement_failure_outcome_def)
  show ?thesis using st ty du rm cb a b c en by blast
qed

text \<open>Claim C6 as stated fails on a machine whose channel is full (capacity 1, one event
  waiting): the commit timeout hands the dummy block to \<open>CommitBlock\<close> and resets the
  action pool, and then the worker is blocked in sending \<open>FinishEpoch\<close>; the machine stays
  in \<open>sAcceptCommitEndorse\<close> and the channel holds what it held.\<close>
theorem agreement_failure_counterexample:
  "fsm_current (full_fsm sAcceptCommitEndorse) = sAcceptCommitEndorse
   \<and> evt_t commit_timeout = eEndorseCommitTimeout
   \<and> evtq_cap (full_fsm sAcceptCommitEndorse) = 1
   \<and> length (evtq (full_fsm sAcceptCommitEndorse)) = 1
   \<and> fst (Handle stub_env (TimeoutEvt commit_timeout) (full_fsm sAcceptCommitEndorse)) = Blocked
   \<and> fsm_current (snd (Handle stub_env (TimeoutEvt commit_timeout)
                          (full_fsm sAcceptCommitEndorse))) = sAcceptCommitEndorse
   \<and> evtq (snd (Handle stub_env (TimeoutEvt commit_timeout) (full_fsm sAcceptCommitEndorse)))
       = evtq (full_fsm sAcceptCommitEndorse)
   \<and> committed_blocks (out (snd (Handle stub_env (TimeoutEvt commit_timeout)
                                    (full_fsm sAcceptCommitEndorse))))
       = [MintNewDummyBlock stub_env]"
proof -
  let ?m = "full_fsm sAcceptCommitEndorse"
  let ?m1 = "logf Warn ''didn't collect enough commit endorse before timeout'' ?m"
  have st: "fsm_current ?m = sAcceptCommitEndorse" by (simp add: full_fsm_def stub_fsm_def)
  have ty: "evt_t commit_timeout = eEndorseCommitTimeout" by (simp add: commit_timeout_def)
  have cap: "evtq_cap ?m = 1"
    by (simp add: evtq_cap_def full_fsm_def stub_fsm_def DefaultRollDPoS_def)
  have len: "length (evtq ?m) = 1" by (simp add: full_fsm_def)
  have nr: "\<not> evtq_room 1 ?m1" using cap len by (simp add: evtq_room_def evtq_cap_def logf_def)
  have du: "EnableDummyBlock (ctx_cfg (ctx ?m1))"
    by (simp add: logf_def full_fsm_def stub_fsm_def DefaultRollDPoS_def)
  have o: "out ?m1 = [Log Warn ''didn't collect enough commit endorse before timeout'']"
    by (simp add: logf_def full_fsm_def stub_fsm_def)
  have h: "handleEndorseCommitTimeout stub_env (TimeoutEvt commit_timeout) ?m
      = processEndorseCommit stub_env False ?m1"
    using ty by (simp add: handleEndorseCommitTimeout_def Let_def)
  have edge: "map_of transition_table (fsm_current ?m, Type (TimeoutEvt commit_timeout))
      = Some (handleEndorseCommitTimeout, [sRoundStart])"
    using st ty by (simp add: edge_AcceptCommitEndorse_Timeout)
  have "fst (handleEndorseCommitTimeout stub_env (TimeoutEvt commit_timeout) ?m) = Blocked"
    using h nr by (simp add: processEndorseCommit_fst)
  from Handle_blocked [OF edge this]
  have H: "Handle stub_env (TimeoutEvt commit_timeout) ?m
      = (Blocked, snd (processEndorseCommit stub_env False ?m1))"
    using h by simp
  have f: "fsm_current (snd (processEndorseCommit stub_env False ?m1)) = sAcceptCommitEndorse"
    using st by (simp add: processEndorseCommit_fsm_current logf_def)
  have q: "evtq (snd (processEndorseCommit stub_env False ?m1)) = evtq ?m"
    using nr by (simp add: processEndorseCommit_evtq) (simp add: logf_def)
  have cm: "committed_blocks (out (snd (processEndorseCommit stub_env False ?m1)))
      = [MintNewDummyBlock stub_env]"
    using du o by (simp add: processEndorseCommit_no_consensus)
  show ?thesis unfolding H using st ty cap len f q cm by simp
qed

lemma tally_lookup:
  "endorses_of (tally t en) (en_blkHash en) (en_endorser en) = Some (en_decision en)"
  by (simp add: tally_def endorses_of_def Let_def)

text \<open>Claim C9. The handler of a commit endorsement checks the event type and the
  topic and nothing else: for a commit endorsement of any height, the decision is
  written into the round's commit tally under the endorser's address, and the quorum that
  decides the outcome is computed on the tally that includes it (without a quorum the
  machine stays in \<open>sAcceptCommitEndorse\<close>; with one the round is closed, which moves to
  \<open>sRoundStart\<close> when the channel has a free slot and blocks the worker when it is full).
  The handler of a proposal endorsement, in contrast, leaves the proposal tally as it
  was and stays in \<open>sAcceptProposalEndorse\<close> when the endorsement's height is not the
  height of the round.\<close>
theorem commit_endorse_height_unchecked:
  assumes ty: "evt_t n = eEndorseCommit"
    and tp: "en_topic (evt_endorse n) = endorseCommit"
    and ty2: "evt_t n2 = eEndorseProposal"
    and hm: "en_height (evt_endorse n2) \<noteq> round_height (ctx_round (ctx m))"
  shows "commitEndorses (ctx_round (ctx (snd (handleEndorseCommitEvt e (EndorseEvt n) m))))
      = tally (commitEndorses (ctx_round (ctx m))) (evt_endorse n)
    \<and> endorses_of (tally (commitEndorses (ctx_round (ctx m))) (evt_endorse n))
        (en_blkHash (evt_endorse n)) (en_endorser (evt_endorse n))
      = Some (en_decision (evt_endorse n))
    \<and> fst (handleEndorseCommitEvt e (EndorseEvt n) m)
      = (case calcQuorum e (ctx (commit_tallied m (evt_endorse n)))
                (endorses_of (tally (commitEndorses (ctx_round (ctx m))) (evt_endorse n))
                   (en_blkHash (evt_endorse n))) of
           (yes, no) \<Rightarrow> if \<not> yes \<and> \<not> no then Return (sAcceptCommitEndorse, None)
                        else if evtq_room 1 m then Return (sRoundStart, None)
                        else Blocked)
    \<and> fst (handleEndorseProposalEvt e (EndorseEvt n2) m) = Return (sAcceptProposalEndorse, None)
    \<and> proposalEndorses (ctx_round (ctx (snd (handleEndorseProposalEvt e (EndorseEvt n2) m))))
      = proposalEndorses (ctx_round (ctx m))"
proof -
  let ?m1 = "commit_tallied m (evt_endorse n)"
  have t: "commitEndorses (ctx_round (ctx ?m1)) = tally (commitEndorses (ctx_round (ctx m))) (evt_endorse n)"
    by (simp add: commit_tallied_def set_round_def)
  have rm: "evtq_room 1 ?m1 = evtq_room 1 m"
    by (simp add: evtq_room_def evtq_cap_def commit_tallied_def set_round_def)
  obtain yes no where yn: "calcQuorum e (ctx ?m1)
                 (endorses_of (tally (commitEndorses (ctx_round (ctx m))) (evt_endorse n))
                    (en_blkHash (evt_endorse n))) = (yes, no)"
    by (cases "calcQuorum e (ctx ?m1)
                 (endorses_of (tally (commitEndorses (ctx_round (ctx m))) (evt_endorse n))
                    (en_blkHash (evt_endorse n)))")
  have h: "handleEndorseCommitEvt e (EndorseEvt n) m
      = (if \<not> yes \<and> \<not> no then (Return (sAcceptCommitEndorse, None), ?m1)
         else processEndorseCommit e (yes \<and> \<not> no) ?m1)"
    using ty tp yn t by (simp add: handleEndorseCommitEvt_def Let_def commit_tallied_def [symmetric])
  have a: "commitEndorses (ctx_round (ctx (snd (handleEndorseCommitEvt e (EndorseEvt n) m))))
      = tally (commitEndorses (ctx_round (ctx m))) (evt_endorse n)"
    using h t by (simp add: processEndorseCommit_ctx)
  have b: "fst (handleEndorseCommitEvt e (EndorseEvt n) m)
      = (if \<not> yes \<and> \<not> no then Return (sAcceptCommitEndorse, None)
         else if evtq_room 1 m then Return (sRoundStart, None) else Blocked)"
    using h rm by (simp add: processEndorseCommit_fst)
  have c: "handleEndorseProposalEvt e (EndorseEvt n2) m
      = (Return (sAcceptProposalEndorse, None),
         if en_topic (evt_endorse n2) \<noteq> endorseProposal
         then logf Error ''error when validating the endorse topic'' m
         else logf Error ''error when validating the endorse height'' m)"
    using ty2 hm by (simp add: handleEndorseProposalEvt_def validateEndorse_def Let_def)
  show ?thesis using a b c yn by (simp add: tally_lookup logf_def)
qed

theorem commit_endorse_height_unchecked_witness:
  "evt_t far_commit_evt = eEndorseCommit
   \<and> en_topic (evt_endorse far_commit_evt) = endorseCommit
   \<and> en_height (evt_endorse far_commit_evt) = 99
   \<and> round_height (ctx_round (ctx (stub_fsm sAcceptCommitEndorse))) = 7
   \<and> endorses_of
       (commitEndorses (ctx_round (ctx (snd (handleEndorseCommitEvt stub_env
            (EndorseEvt far_commit_evt) (stub_fsm sAcceptCommitEndorse))))))
       (en_blkHash (evt_endorse far_commit_evt)) ''io1alice'' = Some True
   \<and> evt_t far_proposal_evt = eEndorseProposal
   \<and> en_height (evt_endorse far_proposal_evt) = 99
   \<and> proposalEndorses (ctx_round (ctx (snd (handleEndorseProposalEvt stub_env
            (EndorseEvt far_proposal_evt) (stub_fsm sAcceptCommitEndorse)))))
       = proposalEndorses (ctx_round (ctx (stub_fsm sAcceptCommitEndorse)))"
proof -
  let ?m = "stub_fsm sAcceptCommitEndorse"
  have ty: "evt_t far_commit_evt = eEndorseCommit" by (simp add: far_commit_evt_def)
  have tp: "en_topic (evt_endorse far_commit_evt) = endorseCommit"
    by (simp add: far_commit_evt_def stub_endorse_def endorseCommit_def)
  have ty2: "evt_t far_proposal_evt = eEndorseProposal" by (simp add: far_proposal_evt_def)
  have hm: "en_height (evt_endorse far_proposal_evt) \<noteq> round_height (ctx_round (ctx ?m))"
    by (simp add: far_proposal_evt_def stub_fsm_def stub_round_def)
  have h1: "en_height (evt_endorse far_commit_evt) = 99" by (simp add: far_commit_evt_def)
  have h2: "en_height (evt_endorse far_proposal_evt) = 99" by (simp add: far_proposal_evt_def)
  have r: "round_height (ctx_round (ctx ?m)) = 7" by (simp add: stub_fsm_def stub_round_def)
  have d: "en_endorser (evt_endorse far_commit_evt) = ''io1alice''
      \<and> en_decision (evt_endorse far_commit_evt) = True"
    by (simp add: far_commit_evt_def stub_endorse_def)
  note th = commit_endorse_height_unchecked [OF ty tp ty2 hm, of stub_env]
  show ?thesis using ty tp ty2 h1 h2 r d th by simp
qed

section \<open>Properties of the seed aggregation\<close>

lemma blocks_in_empty: "\<not> s \<le> t \<Longrightarrow> blocks_in e s t = []"
  by (simp add: blocks_in_def word_le_nat_alt)

lemma unat_next_height: "s \<le> t \<Longrightarrow> unat t < 2 ^ 64 - 1 \<Longrightarrow> unat (s + 1 :: 64 word) = Suc (unat s)"
  by (simp add: word_le_nat_alt unat_word_ariths)

lemma blocks_in_step:
  assumes "s \<le> t" "unat t < 2 ^ 64 - 1"
  shows "blocks_in e s t =
    (case GetBlockByHeight e s of Inl err \<Rightarrow> [] | Inr blk \<Rightarrow> [blk]) @ blocks_in e (s + 1) t"
proof -
  have "[unat s ..< Suc (unat t)] = unat s # [unat (s + 1) ..< Suc (unat t)]"
    using assms by (simp add: unat_next_height upt_conv_Cons word_le_nat_alt)
  then show ?thesis
    by (simp add: blocks_in_def split: sum.splits)
qed

lemma updateSeed_loop_result:
  assumes "unat t < 2 ^ 64 - 1"
  shows "updateSeed_loop e s t (ids, sigs, pks) =
    Some (let bs = take (nat (Degree (cr e) + 1 - int (length ids)))
                     (filter hasDKG (blocks_in e s t))
          in (ids @ map DKGID bs, sigs @ map DKGBlockSig bs, pks @ map DKGPubkey bs))"
  using assms
proof (induction "Suc (unat t) - unat s" arbitrary: s ids sigs pks)
  case 0
  then have "\<not> s \<le> t" by (simp add: word_le_nat_alt)
  then show ?case
    by (subst updateSeed_loop.simps) (simp add: blocks_in_empty)
next
  case (Suc k)
  then have le: "s \<le> t" by (simp add: word_le_nat_alt)
  have k: "k = Suc (unat t) - unat (s + 1)"
    using Suc.hyps(2) unat_next_height [OF le Suc.prems] by simp
  note IH = Suc.hyps(1) [OF k Suc.prems]
  show ?case
  proof (cases "int (length ids) < Degree (cr e) + 1")
    case False
    then show ?thesis
      by (subst updateSeed_loop.simps) simp
  next
    case True
    show ?thesis
    proof (cases "GetBlockByHeight e s")
      case (Inl err)
      then show ?thesis
        using le True IH [of ids sigs pks]
        by (subst updateSeed_loop.simps) (simp add: blocks_in_step [OF le Suc.prems])
    next
      case (Inr blk)
      show ?thesis
      proof (cases "hasDKG blk")
        case False
        then show ?thesis
          using le True Inr IH [of ids sigs pks]
          by (subst updateSeed_loop.simps)
             (auto simp add: blocks_in_step [OF le Suc.prems] hasDKG_def)
      next
        case h: True
        have n: "nat (Degree (cr e) + 1 - int (length ids))
            = Suc (nat (Degree (cr e) + 1 - int (length (ids @ [DKGID blk]))))"
          using True by simp
        show ?thesis
          using le True Inr h IH [of "ids @ [DKGID blk]" "sigs @ [DKGBlockSig blk]" "pks @ [DKGPubkey blk]"]
          by (subst updateSeed_loop.simps)
             (simp add: blocks_in_step [OF le Suc.prems] hasDKG_def n Let_def del: length_append)
      qed
    qed
  qed
qed


text \<open>Claim C5. When the epoch number and height can be computed, \<open>updateSeed\<close> returns:
  for an epoch number of at most 1, the empty seed and no error; for a later epoch (whose
  start height is not 0), with the first \<open>Degree + 1\<close> DKG-bearing blocks among the heights
  from \<open>NumDelegates * NumSubEpochs * (epochNum - 2) + 1\<close> up to \<open>epochHeight - 1\<close>: an
  error when there are fewer than \<open>Degree + 1\<close> of them, else the error of
  \<open>BLS.SignAggregate\<close> over their ids and signatures if it fails, else the error of
  \<open>BLS.VerifyAggregate\<close> of the aggregate against the seed of the epoch if it fails, and
  else the aggregate. In particular the scan ends.\<close>
theorem updateSeed_result:
  assumes ce: "calcEpochNumAndHeight e (ctx m) = Inr (epochNum, epochHeight)"
    and nz: "epochNum \<le> 1 \<or> epochHeight \<noteq> 0"
  shows "updateSeed e m =
    Some (if epochNum \<le> 1 then ([], None)
          else
            let sel = seed_selection e
                        (NumDelegates (ctx_cfg (ctx m)) * NumSubEpochs (ctx_cfg (ctx m))
                           * (epochNum - 2) + 1)
                        (epochHeight - 1)
            in if int (length sel) < Degree (cr e) + 1 then ([], Some ErrNotEnoughDKG)
               else
                 (case BLS_SignAggregate (cr e) (map DKGID sel) (map DKGBlockSig sel) of
                    Inl err \<Rightarrow> ([], Some err)
                  | Inr aggregateSig \<Rightarrow>
                      (case BLS_VerifyAggregate (cr e) (map DKGID sel) (map DKGPubkey sel)
                              (epoch_seed (ctx_epoch (ctx m))) aggregateSig of
                         Some err \<Rightarrow> ([], Some err)
                       | None \<Rightarrow> (aggregateSig, None))))"
proof (cases "epochNum \<le> 1")
  case True
  then show ?thesis using ce by (simp add: updateSeed_def)
next
  case False
  with nz have "epochHeight \<noteq> 0" by simp
  then have "unat (epochHeight - 1) < 2 ^ 64 - 1"
    using unsigned_less [of epochHeight, where 'a = nat] unat_gt_0 [of epochHeight]
    by (simp add: unat_minus_one)
  note lp = updateSeed_loop_result [OF this, of e _ "[]" "[]" "[]"]
  show ?thesis
    using ce False
    by (simp add: updateSeed_def lp Let_def seed_selection_def split: sum.splits option.splits)
qed

theorem updateSeed_result_witness:
  "calcEpochNumAndHeight seed_env (ctx seed_fsm) = Inr (2, 3)
   \<and> updateSeed seed_env seed_fsm = Some ([4, 4], None)"
proof -
  have ce: "calcEpochNumAndHeight seed_env (ctx seed_fsm) = Inr (2, 3)"
    by (simp add: seed_env_def stub_env_def)
  have nz: "(2::uint64) \<le> 1 \<or> (3::uint64) \<noteq> 0" by simp
  have up: "[Suc 0..<3] = [1, 2]" by (simp add: upt_rec)
  have n2: "\<not> (2::uint64) \<le> 1" by (simp add: word_le_nat_alt)
  show ?thesis
    unfolding updateSeed_result [OF ce nz]
    by (simp add: seed_env_def stub_env_def seed_fsm_def stub_fsm_def DefaultRollDPoS_def
        seed_selection_def blocks_in_def hasDKG_def stub_block_def stub_crypto_def
        up n2)
qed

end
